theory Spec2Isabelle
  imports Complex_Main
begin

section \<open>JavaScript primitives used by the analysis modules\<close>

text \<open>
  Every JavaScript number of the program is modelled as a \<^typ>\<open>real\<close>. Outside the
  analyzer the model is the program over exact arithmetic: the properties proved there
  (ranges, orderings, values at inputs whose arithmetic is exact) do not depend on how a
  double rounds. The analyzer, whose result does depend on it, carries the rounding of
  the runtime as a parameter. Overflow to \<open>Infinity\<close> and \<open>NaN\<close> inputs are outside the
  model. Where the program itself produces \<open>undefined\<close> or \<open>NaN\<close> from well-formed
  input, the model says so with an \<open>option\<close>.
\<close>

text \<open>\<open>Math.round\<close>: the nearest integer, a tie going towards plus infinity.\<close>

definition Math_round :: "real \<Rightarrow> real" where
  "Math_round x = of_int \<lfloor>x + 1 / 2\<rfloor>"

text \<open>\<open>function r2(n) { return Math.round(n * 100) / 100; }\<close>\<close>

definition r2 :: "real \<Rightarrow> real" where
  "r2 n = Math_round (n * 100) / 100"

text \<open>\<open>function clamp(n, a, b) { return Math.min(Math.max(n, a), b); }\<close>\<close>

definition clamp :: "real \<Rightarrow> real \<Rightarrow> real \<Rightarrow> real" where
  "clamp n a b = min (max n a) b"

subsection \<open>Strings\<close>

text \<open>
  \<open>String.prototype.toLowerCase\<close> on the ASCII letters; the program's tables and the
  inputs of the claims are ASCII.
\<close>

definition lower_char :: "char \<Rightarrow> char" where
  "lower_char c =
     (case map_of (zip ''ABCDEFGHIJKLMNOPQRSTUVWXYZ'' ''abcdefghijklmnopqrstuvwxyz'') c of
        Some l \<Rightarrow> l
      | None \<Rightarrow> c)"

definition toLowerCase :: "string \<Rightarrow> string" where
  "toLowerCase s = map lower_char s"

text \<open>
  The source's string literals hold two characters outside ASCII, the en dash U+2013 and
  the em dash U+2014; they are written as their UTF-8 bytes.
\<close>

definition en_dash :: string where
  "en_dash = [CHR 0xE2, CHR 0x80, CHR 0x93]"

definition em_dash :: string where
  "em_dash = [CHR 0xE2, CHR 0x80, CHR 0x94]"

definition upper_char :: "char \<Rightarrow> char" where
  "upper_char c =
     (case map_of (zip ''abcdefghijklmnopqrstuvwxyz'' ''ABCDEFGHIJKLMNOPQRSTUVWXYZ'') c of
        Some u \<Rightarrow> u
      | None \<Rightarrow> c)"

definition toUpperCase :: "string \<Rightarrow> string" where
  "toUpperCase s = map upper_char s"

text \<open>\<open>s.startsWith(p)\<close> and \<open>s.includes(p)\<close>: \<open>p\<close> occurs as a contiguous substring.\<close>

fun startsWith :: "string \<Rightarrow> string \<Rightarrow> bool" where
  "startsWith s [] = True"
| "startsWith [] (p # ps) = False"
| "startsWith (c # cs) (p # ps) = (c = p \<and> startsWith cs ps)"

fun str_includes :: "string \<Rightarrow> string \<Rightarrow> bool" where
  "str_includes [] p = (p = [])"
| "str_includes (c # cs) p = (startsWith (c # cs) p \<or> str_includes cs p)"

subsection \<open>parseInt and safeInt\<close>

definition isDigit :: "char \<Rightarrow> bool" where
  "isDigit c = ((48::nat) \<le> of_char c \<and> of_char c \<le> (57::nat))"

definition digitVal :: "char \<Rightarrow> nat" where
  "digitVal c = of_char c - (48::nat)"

text \<open>The value of a string of decimal digits, most significant digit first.\<close>

definition digitsVal :: "string \<Rightarrow> nat" where
  "digitsVal ds = foldl (\<lambda>acc c. acc * 10 + digitVal c) 0 ds"

definition isWhite :: "char \<Rightarrow> bool" where
  "isWhite c = (c = CHR '' '' \<or> c = CHR 0x09 \<or> c = CHR 0x0A \<or> c = CHR 0x0B
                \<or> c = CHR 0x0C \<or> c = CHR 0x0D)"

text \<open>
  \<open>parseInt(val, 10)\<close> on a string: leading white space is skipped, one sign is read, then
  the longest run of decimal digits; with no digit the result is \<open>NaN\<close>, here \<open>None\<close>.
  An absent field (\<open>undefined\<close>) is converted to the string "undefined", which has no
  digit either.
\<close>

definition parseInt10 :: "string \<Rightarrow> int option" where
  "parseInt10 val =
     (let s = dropWhile isWhite val;
          neg = (s \<noteq> [] \<and> hd s = CHR ''-'');
          body = (if s \<noteq> [] \<and> (hd s = CHR ''-'' \<or> hd s = CHR ''+'') then tl s else s);
          ds = takeWhile isDigit body
      in if ds = [] then None
         else Some (if neg then - int (digitsVal ds) else int (digitsVal ds)))"

text \<open>
  \<open>function safeInt(val) { const n = parseInt(val, 10); return Number.isFinite(n) ? n : 0; }\<close>
\<close>

definition safeInt :: "string option \<Rightarrow> real" where
  "safeInt val =
     (case val of
        None \<Rightarrow> 0
      | Some s \<Rightarrow> (case parseInt10 s of None \<Rightarrow> 0 | Some n \<Rightarrow> of_int n))"

section \<open>Tier classifier\<close>

text \<open>
  An entry of \<open>AUDIENCE_TIERS\<close>. The upper bound \<open>Infinity\<close> of the last tier is \<open>None\<close>.
\<close>

record tier =
  tier_name :: string
  tier_min :: real
  tier_max :: "real option"
  tier_label :: string

definition AUDIENCE_TIERS :: "tier list" where
  "AUDIENCE_TIERS =
     [\<lparr>tier_name = ''Nano'', tier_min = 0, tier_max = Some 9999, tier_label = ''nano (1K'' @ en_dash @ ''10K)''\<rparr>,
      \<lparr>tier_name = ''Micro'', tier_min = 10000, tier_max = Some 49999, tier_label = ''micro (10K'' @ en_dash @ ''50K)''\<rparr>,
      \<lparr>tier_name = ''Mid-Tier'', tier_min = 50000, tier_max = Some 499999, tier_label = ''mid-tier (50K'' @ en_dash @ ''500K)''\<rparr>,
      \<lparr>tier_name = ''Macro'', tier_min = 500000, tier_max = Some 999999, tier_label = ''macro (500K'' @ en_dash @ ''1M)''\<rparr>,
      \<lparr>tier_name = ''Mega'', tier_min = 1000000, tier_max = None, tier_label = ''mega (1M+)''\<rparr>]"

text \<open>The predicate of the \<open>find\<close>: \<open>subscribers >= t.min && subscribers <= t.max\<close>.\<close>

definition tier_matches :: "real \<Rightarrow> tier \<Rightarrow> bool" where
  "tier_matches subscribers t =
     (subscribers \<ge> tier_min t \<and>
      (case tier_max t of None \<Rightarrow> True | Some m \<Rightarrow> subscribers \<le> m))"

text \<open>
  \<open>AUDIENCE_TIERS.find(...) ?? AUDIENCE_TIERS[0]\<close>: the first matching tier, and the
  first tier of the table when none matches.
\<close>

definition classifyAudienceTier :: "real \<Rightarrow> tier" where
  "classifyAudienceTier subscribers =
     (case find (tier_matches subscribers) AUDIENCE_TIERS of
        Some t \<Rightarrow> t
      | None \<Rightarrow> hd AUDIENCE_TIERS)"

section \<open>Video normalizer\<close>

subsection \<open>parseDuration\<close>

text \<open>
  \<open>iso.match(/PT(?:(\d+)H)?(?:(\d+)M)?(?:(\d+)S)?/)\<close>. The pattern is not anchored and
  every group after \<open>PT\<close> is optional, so the match is at the leftmost occurrence of the
  two characters \<open>PT\<close>, and there is no match exactly when the string has no \<open>PT\<close>.
  \<open>afterPT\<close> returns the text that follows that occurrence.
\<close>

fun afterPT :: "string \<Rightarrow> string option" where
  "afterPT (c1 # c2 # cs) =
     (if c1 = CHR ''P'' \<and> c2 = CHR ''T'' then Some cs else afterPT (c2 # cs))"
| "afterPT cs = None"

text \<open>
  One optional group \<open>(?:(\d+)X)?\<close> at the head of \<open>s\<close>: the longest run of digits,
  which must be non-empty and followed by the unit letter; fewer digits would leave a
  digit where the letter is expected, so backtracking finds nothing else. The result is
  the captured digits (\<open>None\<close> for a group that did not take part) and the text left.
\<close>

definition rx_group :: "char \<Rightarrow> string \<Rightarrow> string option \<times> string" where
  "rx_group unit s =
     (let ds = takeWhile isDigit s; rest = dropWhile isDigit s
      in if ds \<noteq> [] \<and> rest \<noteq> [] \<and> hd rest = unit then (Some ds, tl rest) else (None, s))"

text \<open>The captures \<open>m[1]\<close>, \<open>m[2]\<close>, \<open>m[3]\<close> of the match, or \<open>None\<close> for \<open>null\<close>.\<close>

definition duration_match :: "string \<Rightarrow> (string option \<times> string option \<times> string option) option" where
  "duration_match iso8601 =
     (case afterPT iso8601 of
        None \<Rightarrow> None
      | Some s0 \<Rightarrow>
          (let (h, s1) = rx_group (CHR ''H'') s0;
               (m, s2) = rx_group (CHR ''M'') s1;
               (sec, s3) = rx_group (CHR ''S'') s2
           in Some (h, m, sec)))"

text \<open>\<open>parseInt(m[i] || '0', 10)\<close> on a capture, which is a non-empty digit string or absent.\<close>

definition capture_val :: "string option \<Rightarrow> real" where
  "capture_val g = (case g of None \<Rightarrow> of_nat (digitsVal ''0'') | Some ds \<Rightarrow> of_nat (digitsVal ds))"

text \<open>
  \<open>if (!m) return 0; return parseInt(m[1] || '0', 10) * 3600 + parseInt(m[2] || '0', 10) * 60
  + parseInt(m[3] || '0', 10);\<close>
\<close>

definition parseDuration :: "string \<Rightarrow> real" where
  "parseDuration iso8601 =
     (case duration_match iso8601 of
        None \<Rightarrow> 0
      | Some (h, m, sec) \<Rightarrow> capture_val h * 3600 + capture_val m * 60 + capture_val sec)"

subsection \<open>parseVideos\<close>

text \<open>
  A raw record of the video API: every nested object and every field may be absent.
\<close>

record snippet =
  snippet_title :: "string option"
  snippet_description :: "string option"
  snippet_tags :: "string list option"
  snippet_publishedAt :: "string option"

record statistics =
  statistics_viewCount :: "string option"
  statistics_likeCount :: "string option"
  statistics_commentCount :: "string option"

record contentDetails =
  contentDetails_duration :: "string option"
  videoPublishedAt :: "string option"

record raw_video =
  raw_id :: string
  raw_snippet :: "snippet option"
  raw_statistics :: "statistics option"
  raw_contentDetails :: "contentDetails option"

text \<open>A normalized video; \<open>publishedAt\<close> is the time value of the \<open>Date\<close>, in milliseconds.\<close>

record parsed_video =
  videoId :: string
  title :: string
  description :: string
  tags :: "string list"
  publishedAt :: int
  views :: real
  likes :: real
  comments :: real
  duration :: string
  durationSeconds :: real
  isShort :: bool
  engagement :: real
  likesDisabled :: bool
  commentsDisabled :: bool

text \<open>Optional chaining \<open>o?.f\<close> and the nullish default \<open>a ?? b\<close>.\<close>

definition opt_chain :: "'a option \<Rightarrow> ('a \<Rightarrow> 'b option) \<Rightarrow> 'b option" where
  "opt_chain obj f = (case obj of None \<Rightarrow> None | Some v \<Rightarrow> f v)"

definition nullish :: "'a option \<Rightarrow> 'a \<Rightarrow> 'a" where
  "nullish a b = (case a of None \<Rightarrow> b | Some v \<Rightarrow> v)"

text \<open>
  The body of the \<open>map\<close> callback. The date parser of the runtime is the parameter
  \<open>Date_parse\<close>: the time value of \<open>new Date(s)\<close>, \<open>None\<close> when it is \<open>NaN\<close>. With
  both timestamps absent the argument is the number \<open>0\<close>, the epoch. A record whose
  date is invalid maps to \<open>null\<close>, here \<open>None\<close>.
\<close>

definition parseVideo :: "(string \<Rightarrow> int option) \<Rightarrow> raw_video \<Rightarrow> parsed_video option" where
  "parseVideo Date_parse v =
     (let stats = raw_statistics v;
          views = safeInt (opt_chain stats statistics_viewCount);
          likes = safeInt (opt_chain stats statistics_likeCount);
          comments = safeInt (opt_chain stats statistics_commentCount);
          publishedAt =
            (case opt_chain (raw_snippet v) snippet_publishedAt of
               Some s \<Rightarrow> Date_parse s
             | None \<Rightarrow>
                 (case opt_chain (raw_contentDetails v) videoPublishedAt of
                    Some s \<Rightarrow> Date_parse s
                  | None \<Rightarrow> Some 0))
      in case publishedAt of
           None \<Rightarrow> None
         | Some t \<Rightarrow>
            (let duration = nullish (opt_chain (raw_contentDetails v) contentDetails_duration) ''PT0S'';
                 durationSeconds = parseDuration duration
             in Some \<lparr>videoId = raw_id v,
                   title = nullish (opt_chain (raw_snippet v) snippet_title) ''Unknown'',
                   description = nullish (opt_chain (raw_snippet v) snippet_description) [],
                   tags = nullish (opt_chain (raw_snippet v) snippet_tags) [],
                   publishedAt = t,
                   views = views,
                   likes = likes,
                   comments = comments,
                   duration = duration,
                   durationSeconds = durationSeconds,
                   isShort = (durationSeconds > 0 \<and> durationSeconds \<le> 60),
                   engagement = (if views > 0 then ((likes + comments) / views) * 100 else 0),
                   likesDisabled = (opt_chain stats statistics_likeCount = None),
                   commentsDisabled = (opt_chain stats statistics_commentCount = None)\<rparr>))"

text \<open>
  \<open>videos.map(...).filter(Boolean).sort((a, b) => b.publishedAt - a.publishedAt)\<close>:
  the invalid records are dropped and the rest is sorted, most recent first; the sort
  is stable, as \<open>sort_key\<close> is.
\<close>

definition parseVideos :: "(string \<Rightarrow> int option) \<Rightarrow> raw_video list \<Rightarrow> parsed_video list" where
  "parseVideos Date_parse videos =
     sort_key (\<lambda>v. - publishedAt v) (List.map_filter (parseVideo Date_parse) videos)"

section \<open>Engagement and cadence analyzer\<close>

subsection \<open>The arithmetic of the analyzer\<close>

text \<open>
  The posting consistency is the rounding of a computed number, and which integer it
  rounds to can depend on the last bit of that number: for gaps of 11.5 and 28.5 days
  the doubles of the runtime give 57.49999999999999 and so 57, where exact arithmetic
  gives 57.5 and so 58. The analyzer is therefore modelled with the rounding of every
  operation explicit. The arithmetic of the runtime is a parameter:
  \<^item> \<open>rnd\<close> maps the exact result of an addition, subtraction, multiplication or
    division to the double that the operation returns (IEEE 754 rounds each of them
    correctly);
  \<^item> \<open>pow2\<close> is \<open>x ** 2\<close> and \<open>sqrt_js\<close> is \<open>Math.sqrt\<close>, which the language
    leaves to the implementation.
  \<open>Math.round\<close>, \<open>Math.min\<close>, \<open>Math.max\<close> and the comparisons are exact on doubles.
  Overflow and \<open>NaN\<close> stay outside the model. \<open>exact_arith\<close> is the arithmetic that
  does not round.
\<close>

record arith =
  rnd :: "real \<Rightarrow> real"
  pow2 :: "real \<Rightarrow> real"
  sqrt_js :: "real \<Rightarrow> real"

definition exact_arith :: arith where
  "exact_arith = \<lparr>rnd = (\<lambda>x. x), pow2 = (\<lambda>x. x ^ 2), sqrt_js = sqrt\<rparr>"

definition fadd :: "arith \<Rightarrow> real \<Rightarrow> real \<Rightarrow> real" where
  "fadd A a b = rnd A (a + b)"

definition fsub :: "arith \<Rightarrow> real \<Rightarrow> real \<Rightarrow> real" where
  "fsub A a b = rnd A (a - b)"

definition fmul :: "arith \<Rightarrow> real \<Rightarrow> real \<Rightarrow> real" where
  "fmul A a b = rnd A (a * b)"

definition fdiv :: "arith \<Rightarrow> real \<Rightarrow> real \<Rightarrow> real" where
  "fdiv A a b = rnd A (a / b)"

text \<open>\<open>r2\<close> as the analyzer computes it: \<open>Math.round(n * 100) / 100\<close>.\<close>

definition r2_rnd :: "arith \<Rightarrow> real \<Rightarrow> real" where
  "r2_rnd A n = fdiv A (Math_round (fmul A n 100)) 100"

text \<open>
  \<open>sum(arr)\<close> without a key is \<open>arr.reduce((s, v) => s + v, 0)\<close>, a left fold.
\<close>

definition sum_js :: "arith \<Rightarrow> real list \<Rightarrow> real" where
  "sum_js A arr = foldl (\<lambda>s v. fadd A s v) 0 arr"

subsection \<open>analyzeVideos\<close>

text \<open>
  The numeric part of the result of \<open>analyzeVideos\<close>. The date range strings, the
  summaries of the top and worst video and the view distribution are left out: no
  property below reads them.
\<close>

record analytics =
  videoCount :: nat
  engagementRate :: real
  avgViews :: real
  avgLikes :: real
  avgComments :: real
  likeToViewRatio :: real
  commentToViewRatio :: real
  viewToSubRatio :: real
  postsPerWeek :: real
  postingConsistency :: real

definition emptyAnalytics :: analytics where
  "emptyAnalytics =
     \<lparr>videoCount = 0, engagementRate = 0, avgViews = 0, avgLikes = 0, avgComments = 0,
      likeToViewRatio = 0, commentToViewRatio = 0, viewToSubRatio = 0,
      postsPerWeek = 0, postingConsistency = 0\<rparr>"

text \<open>\<open>sum(arr, key)\<close> is \<open>arr.reduce((s, v) => s + (v[key] ?? 0), 0)\<close>.\<close>

definition sum_key :: "arith \<Rightarrow> ('a \<Rightarrow> real) \<Rightarrow> 'a list \<Rightarrow> real" where
  "sum_key A key arr = foldl (\<lambda>s v. fadd A s (key v)) 0 arr"

text \<open>
  The loop \<open>for (let i = 1; i < dates.length; i++) gaps.push((dates[i] - dates[i - 1]) /
  86_400_000)\<close>: the differences of consecutive dates, in days.
\<close>

fun gaps_of :: "arith \<Rightarrow> int list \<Rightarrow> real list" where
  "gaps_of A (a # b # ds) = fdiv A (fsub A (of_int b) (of_int a)) 86400000 # gaps_of A (b # ds)"
| "gaps_of A ds = []"

text \<open>
  The block that sets \<open>postingConsistency\<close> from \<open>gaps\<close>: 100 to start with, the
  formula over mean and standard deviation from two gaps on, 60 for one gap.
\<close>

definition consistency_of_gaps :: "arith \<Rightarrow> real list \<Rightarrow> real" where
  "consistency_of_gaps A gaps =
     (if length gaps \<ge> 2 then
        (let avgGap = fdiv A (sum_js A gaps) (of_nat (length gaps));
             variance = fdiv A (foldl (\<lambda>s g. fadd A s (pow2 A (fsub A g avgGap))) 0 gaps)
                          (of_nat (length gaps));
             stdDev = sqrt_js A variance
         in max 0 (Math_round (fmul A (fsub A 1 (min (fdiv A stdDev (max avgGap 1)) 1)) 100)))
      else if length gaps = 1 then 60
      else 100)"

definition analyzeVideos :: "arith \<Rightarrow> parsed_video list \<Rightarrow> real \<Rightarrow> analytics" where
  "analyzeVideos A parsed subscriberCount =
     (if parsed = [] then emptyAnalytics
      else
        (let totalViews = sum_key A views parsed;
             totalLikes = sum_key A likes parsed;
             totalComments = sum_key A comments parsed;
             count = length parsed;
             avgViews = Math_round (fdiv A totalViews (of_nat count));
             avgLikes = Math_round (fdiv A totalLikes (of_nat count));
             avgComments = Math_round (fdiv A totalComments (of_nat count));
             engagementRate =
               (if totalViews > 0
                then fmul A (fdiv A (fadd A totalLikes totalComments) totalViews) 100 else 0);
             likeToViewRatio = (if totalViews > 0 then fmul A (fdiv A totalLikes totalViews) 100 else 0);
             commentToViewRatio =
               (if totalViews > 0 then fmul A (fdiv A totalComments totalViews) 100 else 0);
             viewToSubRatio =
               (if subscriberCount > 0 then fmul A (fdiv A avgViews subscriberCount) 100 else 0);
             dates = sort (map publishedAt parsed);
             oldest = hd dates;
             newest = last dates;
             spanDays = max 1 (fdiv A (fsub A (of_int newest) (of_int oldest)) 86400000);
             postsPerWeek = fmul A (fdiv A (of_nat count) spanDays) 7;
             gaps = gaps_of A dates
         in \<lparr>videoCount = count,
             engagementRate = r2_rnd A engagementRate,
             avgViews = avgViews,
             avgLikes = avgLikes,
             avgComments = avgComments,
             likeToViewRatio = r2_rnd A likeToViewRatio,
             commentToViewRatio = r2_rnd A commentToViewRatio,
             viewToSubRatio = r2_rnd A viewToSubRatio,
             postsPerWeek = r2_rnd A postsPerWeek,
             postingConsistency = consistency_of_gaps A gaps\<rparr>))"

section \<open>Composite score engine\<close>

record benchmark =
  good :: real
  great :: real

definition ENGAGEMENT_BENCHMARKS :: "(string \<times> benchmark) list" where
  "ENGAGEMENT_BENCHMARKS =
     [(''Nano'', \<lparr>good = 8.0, great = 12.0\<rparr>),
      (''Micro'', \<lparr>good = 5.0, great = 8.0\<rparr>),
      (''Mid-Tier'', \<lparr>good = 3.0, great = 5.0\<rparr>),
      (''Macro'', \<lparr>good = 2.0, great = 3.5\<rparr>),
      (''Mega'', \<lparr>good = 1.5, great = 2.5\<rparr>)]"

record channelStats =
  subscriberCount :: "string option"
  channelViewCount :: "string option"
  channelVideoCount :: "string option"

text \<open>The five sub-scores, each the \<open>if\<close>/\<open>else if\<close> chain of the source.\<close>

definition engScore :: "benchmark \<Rightarrow> real \<Rightarrow> real" where
  "engScore bench er =
     (if er \<ge> great bench then 90 + min 10 ((er - great bench) * 2)
      else if er \<ge> good bench then 60 + ((er - good bench) / (great bench - good bench)) * 30
      else if er > 0 then (er / good bench) * 60
      else 0)"

definition freqScore :: "real \<Rightarrow> real" where
  "freqScore ppw =
     (if ppw \<ge> 2 \<and> ppw \<le> 5 then 90 + min 10 ((ppw - 2) * 3)
      else if ppw > 5 then max 70 (100 - (ppw - 5) * 5)
      else if ppw \<ge> 1 then 50 + (ppw - 1) * 40
      else if ppw \<ge> 0.25 then min 50 (ppw * 200)
      else if ppw > 0 then 10
      else 0)"

definition vsScore :: "real \<Rightarrow> real" where
  "vsScore vsr =
     (if vsr \<ge> 30 then 90 + min 10 ((vsr - 30) * 0.5)
      else if vsr \<ge> 15 then 60 + ((vsr - 15) / 15) * 30
      else if vsr > 0 then (vsr / 15) * 60
      else 0)"

definition audScore :: "real \<Rightarrow> real" where
  "audScore subscribers =
     (if subscribers \<ge> 1000000 then 95
      else if subscribers \<ge> 500000 then 85
      else if subscribers \<ge> 100000 then 75
      else if subscribers \<ge> 50000 then 65
      else if subscribers \<ge> 10000 then 50
      else if subscribers \<ge> 1000 then 30
      else 10)"

definition scoreToGrade :: "real \<Rightarrow> string" where
  "scoreToGrade s =
     (if s \<ge> 90 then ''A+''
      else if s \<ge> 80 then ''A''
      else if s \<ge> 70 then ''B+''
      else if s \<ge> 60 then ''B''
      else if s \<ge> 50 then ''C+''
      else if s \<ge> 40 then ''C''
      else if s \<ge> 30 then ''D''
      else ''F'')"

text \<open>
  The result of \<open>calculateCreatorFusionScore\<close>; of the breakdown the five rounded
  sub-scores are kept, the weight labels and detail strings are left out.
\<close>

record fusion_score =
  score :: real
  grade :: string
  tierName :: string
  tierLabel :: string
  breakdown_engagement :: real
  breakdown_consistency :: real
  breakdown_frequency :: real
  breakdown_viewToSubRatio :: real
  breakdown_audienceSize :: real

text \<open>
  \<open>ENGAGEMENT_BENCHMARKS[tier.name] ?? ENGAGEMENT_BENCHMARKS['Mid-Tier']\<close>: the key is the
  name of an entry of \<open>AUDIENCE_TIERS\<close>, each an own property of the table.
\<close>

definition calculateCreatorFusionScore :: "analytics \<Rightarrow> channelStats \<Rightarrow> fusion_score" where
  "calculateCreatorFusionScore analytics stats =
     (let subscribers = safeInt (subscriberCount stats);
          tier = classifyAudienceTier subscribers;
          bench = (case map_of ENGAGEMENT_BENCHMARKS (tier_name tier) of
                     Some b \<Rightarrow> b
                   | None \<Rightarrow> the (map_of ENGAGEMENT_BENCHMARKS ''Mid-Tier''));
          eng = engScore bench (engagementRate analytics);
          con = postingConsistency analytics;
          freq = freqScore (postsPerWeek analytics);
          vs = vsScore (viewToSubRatio analytics);
          aud = audScore subscribers;
          sc = Math_round
                 (clamp eng 0 100 * 0.35
                  + clamp con 0 100 * 0.20
                  + clamp freq 0 100 * 0.15
                  + clamp vs 0 100 * 0.15
                  + clamp aud 0 100 * 0.15)
      in \<lparr>score = clamp sc 0 100,
          grade = scoreToGrade sc,
          tierName = tier_name tier,
          tierLabel = tier_label tier,
          breakdown_engagement = Math_round (clamp eng 0 100),
          breakdown_consistency = Math_round (clamp con 0 100),
          breakdown_frequency = Math_round (clamp freq 0 100),
          breakdown_viewToSubRatio = Math_round (clamp vs 0 100),
          breakdown_audienceSize = Math_round (clamp aud 0 100)\<rparr>)"

section \<open>Sponsorship signal scanner\<close>

definition DISCLOSURE_HASHTAGS :: "string list" where
  "DISCLOSURE_HASHTAGS =
     [''#ad'', ''#sponsored'', ''#partner'', ''#paidpartnership'',
      ''#collab'', ''#gifted'', ''#brandambassador'', ''#affiliate'']"

definition GENERIC_WORDS :: "string list" where
  "GENERIC_WORDS =
     [''THE'', ''AND'', ''FOR'', ''USE'', ''GET'', ''OFF'', ''OUT'', ''NEW'', ''NOW'',
      ''FREE'', ''LINK'', ''SAVE'', ''BEST'', ''DEAL'', ''SALE'', ''SHOW'', ''CODE'',
      ''THIS'', ''THAT'', ''WITH'', ''YOUR'', ''FROM'', ''HERE'', ''BELOW'', ''CHECK'']"

text \<open>
  The regular expressions of the module are evaluated by the runtime's engine, which is a
  parameter of the model. For a description \<open>desc\<close> it gives
  \<^item> \<open>phrase_match\<close>: \<open>match[0].trim()\<close> for the first pattern of \<open>SPONSORSHIP_PHRASES\<close>
    that matches, \<open>None\<close> when no pattern does;
  \<^item> \<open>affiliate_hits\<close>: the names of the entries of \<open>AFFILIATE_PATTERNS\<close> whose pattern
    tests true, in the order of the table;
  \<^item> \<open>promo_captures\<close>: the first capture group of each successive match of
    \<open>PROMO_CODE_REGEX\<close>, in order.
  The tally of brand mentions, which reads further capture groups and feeds only
  \<open>detectedBrands\<close>, is left out, and so is the date string of a sponsored video.
\<close>

record regex_engine =
  phrase_match :: "string \<Rightarrow> string option"
  affiliate_hits :: "string \<Rightarrow> string list"
  promo_captures :: "string \<Rightarrow> string list"

text \<open>A signal \<open>{ type, value }\<close> is a pair.\<close>

type_synonym signal = "string \<times> string"

record sponsored_video =
  sv_videoId :: string
  sv_title :: string
  sv_signals :: "signal list"

text \<open>\<open>Set.prototype.add\<close> on a set kept in insertion order.\<close>

definition set_add :: "'a list \<Rightarrow> 'a \<Rightarrow> 'a list" where
  "set_add xs x = (if x \<in> set xs then xs else xs @ [x])"

text \<open>The accumulators of the loop over the videos.\<close>

record scan_state =
  st_sponsoredVideos :: "sponsored_video list"
  st_promoCodes :: "string list"
  st_affiliateNets :: "string list"
  st_disclosureCount :: nat

text \<open>
  Step 1 of the loop body: one signal for every tag of \<open>DISCLOSURE_HASHTAGS\<close> that the
  lower-cased description includes; \<open>disclosureCount++\<close> runs once for each of them.
\<close>

definition disclosureSignals :: "string \<Rightarrow> signal list" where
  "disclosureSignals lowerDesc =
     map (\<lambda>tag. (''disclosure'', tag)) (filter (\<lambda>tag. str_includes lowerDesc tag) DISCLOSURE_HASHTAGS)"

text \<open>Step 4: the captured codes, upper-cased, that are not generic words.\<close>

definition promoCodesOf :: "regex_engine \<Rightarrow> string \<Rightarrow> string list" where
  "promoCodesOf E desc =
     filter (\<lambda>code. code \<notin> set GENERIC_WORDS) (map toUpperCase (promo_captures E desc))"

text \<open>
  The body of \<open>for (const video of videos)\<close>: the four steps push their signals in
  order, and the video is recorded when it has at least one signal.
\<close>

definition scanVideo :: "regex_engine \<Rightarrow> scan_state \<Rightarrow> parsed_video \<Rightarrow> scan_state" where
  "scanVideo E st video =
     (let desc = description video;
          lowerDesc = toLowerCase desc;
          s1 = disclosureSignals lowerDesc;
          s2 = (case phrase_match E desc of None \<Rightarrow> [] | Some m \<Rightarrow> [(''phrase'', m)]);
          s3 = map (\<lambda>name. (''affiliate'', name)) (affiliate_hits E desc);
          s4 = map (\<lambda>code. (''promo_code'', code)) (promoCodesOf E desc);
          signals = s1 @ s2 @ s3 @ s4
      in \<lparr>st_sponsoredVideos =
            (if length signals > 0
             then st_sponsoredVideos st @
                    [\<lparr>sv_videoId = videoId video, sv_title = title video, sv_signals = signals\<rparr>]
             else st_sponsoredVideos st),
          st_promoCodes = foldl set_add (st_promoCodes st) (promoCodesOf E desc),
          st_affiliateNets = foldl set_add (st_affiliateNets st) (affiliate_hits E desc),
          st_disclosureCount = st_disclosureCount st + length s1\<rparr>)"

definition labelSponsorshipRate :: "real \<Rightarrow> string" where
  "labelSponsorshipRate rate =
     (if rate \<ge> 60 then ''Very High '' @ em_dash @ '' majority of content is sponsored''
      else if rate \<ge> 35 then ''High '' @ em_dash @ '' frequent sponsored content''
      else if rate \<ge> 15 then ''Moderate '' @ em_dash @ '' regular but balanced''
      else if rate > 0 then ''Low '' @ em_dash @ '' occasional sponsored content''
      else ''None detected'')"

record sponsorship_report =
  totalVideosScanned :: nat
  totalDetected :: nat
  sponsorshipRate :: real
  sponsorshipRateLabel :: string
  hasProperDisclosure :: bool
  disclosureRate :: real
  promoCodes :: "string list"
  affiliateNetworks :: "string list"
  sponsoredVideos :: "sponsored_video list"

definition emptyReport :: sponsorship_report where
  "emptyReport =
     \<lparr>totalVideosScanned = 0, totalDetected = 0, sponsorshipRate = 0,
      sponsorshipRateLabel = ''None detected'', hasProperDisclosure = True,
      disclosureRate = 100, promoCodes = [], affiliateNetworks = [], sponsoredVideos = []\<rparr>"

definition detectSponsorships :: "regex_engine \<Rightarrow> parsed_video list \<Rightarrow> sponsorship_report" where
  "detectSponsorships E videos =
     (if videos = [] then emptyReport
      else
        (let st = foldl (scanVideo E)
                    \<lparr>st_sponsoredVideos = [], st_promoCodes = [], st_affiliateNets = [],
                     st_disclosureCount = 0\<rparr> videos;
             detected = length (st_sponsoredVideos st);
             sponsorshipRate =
               (if length videos > 0
                then Math_round ((of_nat detected / of_nat (length videos)) * 100)
                else 0)
         in \<lparr>totalVideosScanned = length videos,
             totalDetected = detected,
             sponsorshipRate = sponsorshipRate,
             sponsorshipRateLabel = labelSponsorshipRate sponsorshipRate,
             hasProperDisclosure = (st_disclosureCount st > 0),
             disclosureRate =
               (if detected > 0
                then Math_round ((of_nat (st_disclosureCount st) / of_nat detected) * 100)
                else 100),
             promoCodes = st_promoCodes st,
             affiliateNetworks = st_affiliateNets st,
             sponsoredVideos = st_sponsoredVideos st\<rparr>))"

section \<open>Rate card pricing engine\<close>

subsection \<open>Property lookup on an object literal\<close>

text \<open>
  \<open>BASE_CPM\<close>, \<open>TIER_FLOORS\<close> and \<open>NICHE_MULTIPLIERS\<close> are object literals, so a lookup
  \<open>obj[key]\<close> finds the own properties of the literal and, after them, the properties
  every object inherits from \<open>Object.prototype\<close>. Those are functions (and, for
  \<open>__proto__\<close>, the prototype itself): values that are not nullish and that have none of
  the fields of a table entry.
\<close>

definition Object_prototype_keys :: "string list" where
  "Object_prototype_keys =
     [''constructor'', ''hasOwnProperty'', ''isPrototypeOf'', ''propertyIsEnumerable'',
      ''toLocaleString'', ''toString'', ''valueOf'', ''__proto__'',
      ''__defineGetter__'', ''__defineSetter__'', ''__lookupGetter__'', ''__lookupSetter__'']"

datatype 'a js_prop = Own 'a | Inherited

text \<open>\<open>obj[key]\<close>; \<open>None\<close> is \<open>undefined\<close>.\<close>

definition js_get :: "(string \<times> 'a) list \<Rightarrow> string \<Rightarrow> 'a js_prop option" where
  "js_get obj key =
     (case map_of obj key of
        Some v \<Rightarrow> Some (Own v)
      | None \<Rightarrow> if key \<in> set Object_prototype_keys then Some Inherited else None)"

text \<open>\<open>a ?? b\<close> where \<open>b\<close> may be \<open>undefined\<close> as well.\<close>

definition nullish_opt :: "'a option \<Rightarrow> 'a option \<Rightarrow> 'a option" where
  "nullish_opt a b = (case a of None \<Rightarrow> b | Some v \<Rightarrow> Some v)"

text \<open>
  Reading a field \<open>p.f\<close> of a looked-up value: the field of a table entry, and
  \<open>undefined\<close> (\<open>None\<close>) on an inherited value.
\<close>

definition field :: "('a \<Rightarrow> 'b) \<Rightarrow> 'a js_prop \<Rightarrow> 'b option" where
  "field f p = (case p of Own v \<Rightarrow> Some (f v) | Inherited \<Rightarrow> None)"

text \<open>
  A number that may be \<open>NaN\<close> is a \<open>real option\<close>, \<open>None\<close> for \<open>NaN\<close>. Arithmetic on
  \<open>undefined\<close> gives \<open>NaN\<close>, \<open>Math.max\<close> and \<open>Math.round\<close> pass \<open>NaN\<close> on, and every
  comparison with \<open>NaN\<close> is false.
\<close>

definition nan_max :: "real option \<Rightarrow> real option \<Rightarrow> real option" where
  "nan_max a b =
     (case a of None \<Rightarrow> None | Some x \<Rightarrow> (case b of None \<Rightarrow> None | Some y \<Rightarrow> Some (max x y)))"

definition js_le :: "real option \<Rightarrow> real option \<Rightarrow> bool" where
  "js_le a b =
     (case a of None \<Rightarrow> False | Some x \<Rightarrow> (case b of None \<Rightarrow> False | Some y \<Rightarrow> x \<le> y))"

subsection \<open>Tables\<close>

record 'a triple =
  low :: 'a
  mid :: 'a
  high :: 'a

definition BASE_CPM :: "(string \<times> real triple) list" where
  "BASE_CPM =
     [(''Nano'', \<lparr>low = 5, mid = 10, high = 20\<rparr>),
      (''Micro'', \<lparr>low = 10, mid = 18, high = 30\<rparr>),
      (''Mid-Tier'', \<lparr>low = 15, mid = 22, high = 35\<rparr>),
      (''Macro'', \<lparr>low = 20, mid = 28, high = 40\<rparr>),
      (''Mega'', \<lparr>low = 25, mid = 35, high = 50\<rparr>)]"

record floors =
  integration :: real
  dedicated :: real
  shorts :: real

definition TIER_FLOORS :: "(string \<times> floors) list" where
  "TIER_FLOORS =
     [(''Nano'', \<lparr>integration = 100, dedicated = 200, shorts = 50\<rparr>),
      (''Micro'', \<lparr>integration = 500, dedicated = 1000, shorts = 150\<rparr>),
      (''Mid-Tier'', \<lparr>integration = 2500, dedicated = 5000, shorts = 500\<rparr>),
      (''Macro'', \<lparr>integration = 10000, dedicated = 25000, shorts = 2000\<rparr>),
      (''Mega'', \<lparr>integration = 30000, dedicated = 75000, shorts = 5000\<rparr>)]"

text \<open>\<open>Object.entries(NICHE_MULTIPLIERS)\<close>: the entries in the order of the literal.\<close>

definition NICHE_MULTIPLIERS :: "(string \<times> real) list" where
  "NICHE_MULTIPLIERS =
     [(''Technology'', 1.3), (''Finance'', 1.5), (''Business'', 1.4), (''Science'', 1.2),
      (''Education'', 1.1), (''Health'', 1.2), (''Gaming'', 0.9), (''Music'', 0.8),
      (''Entertainment'', 0.9), (''Sports'', 1.0), (''Lifestyle'', 1.1), (''Comedy'', 0.85),
      (''Film'', 0.9), (''Society'', 1.0)]"

subsection \<open>calcRate\<close>

definition calcRate :: "real \<Rightarrow> real triple js_prop \<Rightarrow> real \<Rightarrow> real \<Rightarrow> real option \<Rightarrow> real option triple" where
  "calcRate views' cpm typeMultiplier qualityMultiplier floor' =
     (let raw_low = map_option (\<lambda>c. Math_round ((views' / 1000) * c * typeMultiplier * qualityMultiplier))
                      (field low cpm);
          raw_mid = map_option (\<lambda>c. Math_round ((views' / 1000) * c * typeMultiplier * qualityMultiplier))
                      (field mid cpm);
          raw_high = map_option (\<lambda>c. Math_round ((views' / 1000) * c * typeMultiplier * qualityMultiplier))
                      (field high cpm)
      in \<lparr>low = nan_max raw_low floor',
          mid = nan_max raw_mid (map_option (\<lambda>f. Math_round (f * 1.5)) floor'),
          high = nan_max raw_high (map_option (\<lambda>f. Math_round (f * 2.5)) floor')\<rparr>)"

subsection \<open>generateRateCard\<close>

text \<open>
  The niche loops. The state is \<open>(nicheMultiplier, matchedNiche)\<close>, starting from
  \<open>(1.0, 'General')\<close>; an entry replaces it when the category includes the niche, case
  ignored, and its multiplier is greater than the current one.
\<close>

definition nicheStep :: "string \<Rightarrow> real \<times> string \<Rightarrow> string \<times> real \<Rightarrow> real \<times> string" where
  "nicheStep cat st entry =
     (if str_includes (toLowerCase cat) (toLowerCase (fst entry))
      then (if snd entry > fst st then (snd entry, fst entry) else st)
      else st)"

definition nicheScan :: "string list \<Rightarrow> real \<times> string" where
  "nicheScan contentCategories =
     foldl (\<lambda>st cat. foldl (nicheStep cat) st NICHE_MULTIPLIERS) (1.0, ''General'') contentCategories"

definition engagementMultiplierOf :: "real \<Rightarrow> real" where
  "engagementMultiplierOf creatorFusionScore =
     (if creatorFusionScore \<ge> 80 then 1.25
      else if creatorFusionScore \<ge> 65 then 1.10
      else if creatorFusionScore \<ge> 50 then 1.0
      else if creatorFusionScore \<ge> 35 then 0.85
      else 0.7)"

definition brandDealExperienceOf :: "sponsorship_report option \<Rightarrow> string" where
  "brandDealExperienceOf sponsorship =
     (case sponsorship of
        None \<Rightarrow> ''Unknown''
      | Some sp \<Rightarrow>
          (if totalDetected sp \<ge> 10 then ''Very experienced '' @ em_dash @ '' frequent brand partnerships''
           else if totalDetected sp \<ge> 5 then ''Experienced '' @ em_dash @ '' regular brand deals''
           else if totalDetected sp \<ge> 1 then ''Some experience '' @ em_dash @ '' occasional partnerships''
           else ''No sponsorship history detected '' @ em_dash @ '' may be open to first deals''))"

text \<open>The rate card; the note of the usage rights and the disclaimer are constant texts, left out.\<close>

record rate_card =
  currency :: string
  estimatedIntegrationRate :: "real option triple"
  estimatedDedicatedRate :: "real option triple"
  estimatedShortsRate :: "real option triple"
  usageRightsAddon :: "real option triple"
  niche_category :: string
  niche_multiplier :: real
  engagement_multiplier :: real
  combined :: real
  brandDealExperience :: string

datatype js_error = TypeError

text \<open>
  \<open>generateRateCard\<close>. Reading a field of \<open>undefined\<close> throws a \<open>TypeError\<close>; that is
  what \<open>calcRate\<close> would do with a \<open>baseCpm\<close> or \<open>floors\<close> that the two lookups left
  \<open>undefined\<close>.
\<close>

definition generateRateCard ::
  "real \<Rightarrow> real \<Rightarrow> string \<Rightarrow> real \<Rightarrow> real \<Rightarrow> string list \<Rightarrow> sponsorship_report option
     \<Rightarrow> js_error + rate_card" where
  "generateRateCard avgViews' subscribers tier engagementRate' creatorFusionScore contentCategories sponsorship =
     (case nullish_opt (js_get BASE_CPM tier) (js_get BASE_CPM ''Mid-Tier'') of
        None \<Rightarrow> Inl TypeError
      | Some baseCpm \<Rightarrow>
     (case nullish_opt (js_get TIER_FLOORS tier) (js_get TIER_FLOORS ''Mid-Tier'') of
        None \<Rightarrow> Inl TypeError
      | Some floors \<Rightarrow>
         (let nicheMultiplier = fst (nicheScan contentCategories);
              matchedNiche = snd (nicheScan contentCategories);
              engagementMultiplier = engagementMultiplierOf creatorFusionScore;
              combinedMultiplier = nicheMultiplier * engagementMultiplier;
              integrationRate = calcRate avgViews' baseCpm 1.0 combinedMultiplier (field integration floors);
              dedicatedRate = calcRate avgViews' baseCpm 2.0 combinedMultiplier (field dedicated floors);
              shortsRate = calcRate (avgViews' * 0.6) baseCpm 0.3 combinedMultiplier (field shorts floors);
              usageRights =
                \<lparr>low = map_option (\<lambda>m. Math_round (m * 0.3)) (mid integrationRate),
                 mid = map_option (\<lambda>m. Math_round (m * 0.65)) (mid integrationRate),
                 high = map_option (\<lambda>m. Math_round (m * 1.0)) (mid integrationRate)\<rparr>
          in Inr \<lparr>currency = ''USD'',
                 estimatedIntegrationRate = integrationRate,
                 estimatedDedicatedRate = dedicatedRate,
                 estimatedShortsRate = shortsRate,
                 usageRightsAddon = usageRights,
                 niche_category = matchedNiche,
                 niche_multiplier = r2 nicheMultiplier,
                 engagement_multiplier = r2 engagementMultiplier,
                 combined = r2 combinedMultiplier,
                 brandDealExperience = brandDealExperienceOf sponsorship\<rparr>)))"

section \<open>Authenticity anomaly detector\<close>

definition NATURAL_LVR_CV_MIN :: real where "NATURAL_LVR_CV_MIN = 0.15"
definition NORMAL_CTL_MIN :: real where "NORMAL_CTL_MIN = 0.5"
definition NORMAL_CTL_MAX :: real where "NORMAL_CTL_MAX = 20.0"
definition MIN_VIEWS_PER_SUB :: real where "MIN_VIEWS_PER_SUB = 5"

definition coefficientOfVariation :: "real list \<Rightarrow> real" where
  "coefficientOfVariation values =
     (if length values < 2 then 0
      else
        (let mean' = foldl (\<lambda>a b. a + b) 0 values / of_nat (length values)
         in if mean' = 0 then 0
            else
              (let variance = foldl (\<lambda>s v. s + (v - mean') ^ 2) 0 values / of_nat (length values)
               in sqrt variance / mean')))"

definition labelScore :: "real \<Rightarrow> string" where
  "labelScore sc =
     (if sc \<ge> 85 then ''High authenticity '' @ em_dash @ '' no significant red flags''
      else if sc \<ge> 65 then ''Moderate authenticity '' @ em_dash @ '' minor concerns detected''
      else if sc \<ge> 40 then ''Low authenticity '' @ em_dash @ '' multiple red flags present''
      else ''Very low authenticity '' @ em_dash @ '' strong indicators of inauthentic engagement'')"

text \<open>A flag, without its detail text; the map of signal measurements is left out too.\<close>

record flag =
  flag_severity :: string
  flag_signal :: string

text \<open>
  The five checks update \<open>flags\<close> and \<open>deductions\<close>; each is a function on that pair,
  \<open>flags.push(...)\<close> appending and \<open>deductions += n\<close> adding.
\<close>

type_synonym check_state = "flag list \<times> real"

definition raise_flag :: "string \<Rightarrow> string \<Rightarrow> real \<Rightarrow> check_state \<Rightarrow> check_state" where
  "raise_flag sev sig n st = (fst st @ [\<lparr>flag_severity = sev, flag_signal = sig\<rparr>], snd st + n)"

text \<open>Signal 1: like-to-view ratio consistency.\<close>

definition likeToViewRatios :: "parsed_video list \<Rightarrow> real list" where
  "likeToViewRatios eligible =
     map (\<lambda>v. likes v / views v) (filter (\<lambda>v. \<not> likesDisabled v \<and> views v > 0) eligible)"

definition likeConsistencyCheck :: "parsed_video list \<Rightarrow> check_state \<Rightarrow> check_state" where
  "likeConsistencyCheck eligible st =
     (let lvrs = likeToViewRatios eligible
      in if length lvrs \<ge> 3 then
           (let cv = coefficientOfVariation lvrs
            in if cv < NATURAL_LVR_CV_MIN
               then raise_flag ''high'' ''Suspiciously consistent like-to-view ratio'' 30 st
               else if cv < 0.20
               then raise_flag ''medium'' ''Unusually consistent like-to-view ratio'' 10 st
               else st)
         else st)"

text \<open>Signal 2: comment-to-like ratio.\<close>

definition commentToLikeCheck :: "parsed_video list \<Rightarrow> check_state \<Rightarrow> check_state" where
  "commentToLikeCheck eligible st =
     (let totalLikes = foldl (\<lambda>s v. s + likes v) 0 eligible;
          totalComments = foldl (\<lambda>s v. s + comments v) 0 eligible
      in if totalLikes > 0 then
           (let ctl = (totalComments / totalLikes) * 100
            in if ctl < NORMAL_CTL_MIN
               then raise_flag ''high'' ''Abnormally low comment-to-like ratio'' 25 st
               else if ctl > NORMAL_CTL_MAX
               then raise_flag ''medium'' ''Unusually high comment-to-like ratio'' 15 st
               else st)
         else st)"

text \<open>Signal 3: lifetime views per subscriber.\<close>

definition viewsPerSubCheck :: "real \<Rightarrow> real \<Rightarrow> check_state \<Rightarrow> check_state" where
  "viewsPerSubCheck subscribers totalViews st =
     (if subscribers > 1000 \<and> totalViews > 0 then
        (let viewsPerSub = totalViews / subscribers
         in if viewsPerSub < MIN_VIEWS_PER_SUB
            then raise_flag ''high'' ''Very low lifetime views per subscriber'' 25 st
            else st)
      else st)"

text \<open>Signal 4: videos with many likes and no comment.\<close>

definition zeroCommentCheck :: "parsed_video list \<Rightarrow> check_state \<Rightarrow> check_state" where
  "zeroCommentCheck eligible st =
     (let zeroCommentHighLikes =
            filter (\<lambda>v. comments v = 0 \<and> \<not> commentsDisabled v \<and> likes v > 50) eligible
      in if length zeroCommentHighLikes > 0 then
           (let pct = Math_round ((of_nat (length zeroCommentHighLikes) / of_nat (length eligible)) * 100)
            in if pct \<ge> 30
               then raise_flag ''medium'' ''Many videos have likes but zero comments'' 15 st
               else st)
         else st)"

text \<open>Signal 5: flat view counts.\<close>

definition viewFlatnessCheck :: "parsed_video list \<Rightarrow> check_state \<Rightarrow> check_state" where
  "viewFlatnessCheck eligible st =
     (let viewCounts = map views eligible;
          viewCV = coefficientOfVariation viewCounts
      in if viewCV < 0.1 \<and> length eligible \<ge> 5
         then raise_flag ''medium'' ''Unnaturally consistent view counts'' 15 st
         else st)"

record authenticity_report =
  auth_score :: "real option"
  auth_status :: "string option"
  auth_label :: string
  auth_note :: "string option"
  auth_flags :: "flag list"
  videosAnalyzed :: "nat option"

text \<open>The object returned for too little data: a \<open>null\<close> score, a status and a note.\<close>

definition insufficient :: "string \<Rightarrow> authenticity_report" where
  "insufficient note' =
     \<lparr>auth_score = None, auth_status = Some ''insufficient_data'', auth_label = ''Insufficient data'',
      auth_note = Some note', auth_flags = [], videosAnalyzed = None\<rparr>"

definition analyzeAuthenticity :: "parsed_video list \<Rightarrow> channelStats \<Rightarrow> authenticity_report" where
  "analyzeAuthenticity videos stats =
     (if length videos < 3
      then insufficient ''Need at least 3 videos with engagement data for authenticity analysis.''
      else
        (let subscribers = safeInt (subscriberCount stats);
             totalViews = safeInt (channelViewCount stats);
             eligible = filter (\<lambda>v. views v \<ge> 100) videos
         in if length eligible < 3
            then insufficient ''Need at least 3 videos with 100+ views for authenticity analysis.''
            else
              (let st1 = likeConsistencyCheck eligible ([], 0);
                   st2 = commentToLikeCheck eligible st1;
                   st3 = viewsPerSubCheck subscribers totalViews st2;
                   st4 = zeroCommentCheck eligible st3;
                   st5 = viewFlatnessCheck eligible st4;
                   sc = max 0 (100 - snd st5)
               in \<lparr>auth_score = Some sc, auth_status = None, auth_label = labelScore sc,
                   auth_note = None, auth_flags = fst st5,
                   videosAnalyzed = Some (length eligible)\<rparr>)))"

section \<open>Fixtures and specification-level notions\<close>

text \<open>
  \<open>makeRawVideo\<close> of the analytics tests: a record with every field present, the
  duration chosen by the test.
\<close>

definition makeRawVideo :: "string \<Rightarrow> raw_video" where
  "makeRawVideo d =
     \<lparr>raw_id = ''vid_001'',
      raw_snippet = Some \<lparr>snippet_title = Some ''Test Video'', snippet_description = Some [],
                          snippet_tags = Some [], snippet_publishedAt = Some ''2025-01-15T12:00:00Z''\<rparr>,
      raw_statistics = Some \<lparr>statistics_viewCount = Some ''10000'', statistics_likeCount = Some ''500'',
                             statistics_commentCount = Some ''50''\<rparr>,
      raw_contentDetails = Some \<lparr>contentDetails_duration = Some d, videoPublishedAt = None\<rparr>\<rparr>"

text \<open>A normalized video published at time \<open>t\<close>, its other fields those of that fixture.\<close>

definition video_at :: "int \<Rightarrow> parsed_video" where
  "video_at t =
     \<lparr>videoId = ''vid_001'', title = ''Test Video'', description = [], tags = [],
      publishedAt = t, views = 10000, likes = 500, comments = 50,
      duration = ''PT10M30S'', durationSeconds = 630, isShort = False, engagement = 5.5,
      likesDisabled = False, commentsDisabled = False\<rparr>"

text \<open>
  The notions the specification uses for the consistency score: the gaps between
  consecutive publish times in days, oldest first, their mean and their population
  standard deviation, each computed in the arithmetic \<open>A\<close> from left to right.
\<close>

definition publish_gaps :: "arith \<Rightarrow> parsed_video list \<Rightarrow> real list" where
  "publish_gaps A parsed = gaps_of A (sort (map publishedAt parsed))"

definition mean :: "arith \<Rightarrow> real list \<Rightarrow> real" where
  "mean A xs = fdiv A (sum_js A xs) (of_nat (length xs))"

definition populationStdDev :: "arith \<Rightarrow> real list \<Rightarrow> real" where
  "populationStdDev A xs =
     sqrt_js A (fdiv A (sum_js A (map (\<lambda>x. pow2 A (fsub A x (mean A xs))) xs)) (of_nat (length xs)))"

text \<open>
  The numbers that the three-video example below computes with. All are dyadic
  rationals of small size, so they are doubles and an operation that yields one of them
  is not rounded.
\<close>

definition example_values :: "real list" where
  "example_values = [21600000, 64800000, 1 / 4, 3 / 4, 1, 1 / 2, - (1 / 4), 1 / 16, 1 / 8, 50, 75]"

text \<open>A price triple is ordered when low \<open>\<le>\<close> mid \<open>\<le>\<close> high, as JavaScript compares them.\<close>

definition ordered :: "real option triple \<Rightarrow> bool" where
  "ordered t = (js_le (low t) (mid t) \<and> js_le (mid t) (high t))"

text \<open>\<open>makeVideo\<close> of the sponsorship tests: a video with the given description.\<close>

definition makeVideo :: "string \<Rightarrow> parsed_video" where
  "makeVideo d = (video_at 1736942400000)\<lparr>description := d\<rparr>"

text \<open>The five names of \<open>AUDIENCE_TIERS\<close>, the keys of the pricing tables.\<close>

definition TIER_NAMES :: "string list" where
  "TIER_NAMES = map tier_name AUDIENCE_TIERS"

text \<open>
  What each of the five checks deducts, stated on its own with the thresholds of the
  specification (the share of zero-comment videos is the rounded percentage that the
  source compares with 30), and the total of the five.
\<close>

definition likeConsistencyDeduction :: "parsed_video list \<Rightarrow> real" where
  "likeConsistencyDeduction eligible =
     (if length (likeToViewRatios eligible) < 3 then 0
      else if coefficientOfVariation (likeToViewRatios eligible) < 0.15 then 30
      else if coefficientOfVariation (likeToViewRatios eligible) < 0.20 then 10
      else 0)"

definition commentToLikeDeduction :: "parsed_video list \<Rightarrow> real" where
  "commentToLikeDeduction eligible =
     (if sum_list (map likes eligible) \<le> 0 then 0
      else if sum_list (map comments eligible) / sum_list (map likes eligible) * 100 < 0.5 then 25
      else if sum_list (map comments eligible) / sum_list (map likes eligible) * 100 > 20 then 15
      else 0)"

definition viewsPerSubDeduction :: "real \<Rightarrow> real \<Rightarrow> real" where
  "viewsPerSubDeduction subscribers lifetimeViews =
     (if subscribers > 1000 \<and> lifetimeViews > 0 \<and> lifetimeViews / subscribers < 5 then 25 else 0)"

definition zeroCommentDeduction :: "parsed_video list \<Rightarrow> real" where
  "zeroCommentDeduction eligible =
     (let n = length (filter (\<lambda>v. \<not> commentsDisabled v \<and> comments v = 0 \<and> likes v > 50) eligible)
      in if n > 0 \<and> Math_round (of_nat n / of_nat (length eligible) * 100) \<ge> 30 then 15 else 0)"

definition viewFlatnessDeduction :: "parsed_video list \<Rightarrow> real" where
  "viewFlatnessDeduction eligible =
     (if length eligible \<ge> 5 \<and> coefficientOfVariation (map views eligible) < 0.10 then 15 else 0)"

definition totalDeductions :: "parsed_video list \<Rightarrow> channelStats \<Rightarrow> real" where
  "totalDeductions eligible stats =
     likeConsistencyDeduction eligible
     + commentToLikeDeduction eligible
     + viewsPerSubDeduction (safeInt (subscriberCount stats)) (safeInt (channelViewCount stats))
     + zeroCommentDeduction eligible
     + viewFlatnessDeduction eligible"

text \<open>\<open>makeVideo\<close> and \<open>channelStats\<close> of the authenticity tests.\<close>

definition testVideo :: parsed_video where
  "testVideo = video_at 1736942400000"

definition testChannelStats :: channelStats where
  "testChannelStats =
     \<lparr>subscriberCount = Some ''50000'', channelViewCount = Some ''5000000'',
      channelVideoCount = Some ''200''\<rparr>"

text \<open>
  The ten videos of the test "should flag suspiciously consistent like-to-view ratios",
  all with 10000 views, 500 likes and 50 comments.
\<close>

definition tenVideos :: "parsed_video list" where
  "tenVideos = [testVideo, testVideo, testVideo, testVideo, testVideo,
                testVideo, testVideo, testVideo, testVideo, testVideo]"

section \<open>Properties of the tier classifier\<close>

lemma tier_find_nat:
  "find (tier_matches (of_nat n)) AUDIENCE_TIERS =
     Some (AUDIENCE_TIERS !
       (if n \<le> 9999 then 0 else if n \<le> 49999 then 1 else if n \<le> 499999 then 2
        else if n \<le> 999999 then 3 else 4))"
  by (simp add: AUDIENCE_TIERS_def tier_matches_def)

lemma tier_filter_nat:
  "length (filter (tier_matches (of_nat n)) AUDIENCE_TIERS) = 1"
  by (simp add: AUDIENCE_TIERS_def tier_matches_def)

text \<open>
  Claim C8. On the natural subscriber counts the five tiers partition the line: exactly
  one entry of the table matches a count, so the \<open>find\<close> succeeds and the default after
  \<open>??\<close> is not taken; the tier returned is Nano up to 9,999, Micro up to 49,999,
  Mid-Tier up to 499,999, Macro up to 999,999 and Mega from 1,000,000 on; and the counts
  500, 25,000, 250,000, 750,000 and 5,000,000 are classified Nano, Micro, Mid-Tier, Macro
  and Mega.
\<close>

theorem classifyAudienceTier_partition:
  fixes n :: nat
  shows "find (tier_matches (of_nat n)) AUDIENCE_TIERS \<noteq> None
    \<and> length (filter (tier_matches (of_nat n)) AUDIENCE_TIERS) = 1
    \<and> tier_name (classifyAudienceTier (of_nat n)) =
        (if n \<le> 9999 then ''Nano''
         else if n \<le> 49999 then ''Micro''
         else if n \<le> 499999 then ''Mid-Tier''
         else if n \<le> 999999 then ''Macro''
         else ''Mega'')
    \<and> map (\<lambda>s. tier_name (classifyAudienceTier s)) [500, 25000, 250000, 750000, 5000000]
        = [''Nano'', ''Micro'', ''Mid-Tier'', ''Macro'', ''Mega'']"
proof -
  have found: "find (tier_matches (of_nat n)) AUDIENCE_TIERS \<noteq> None"
    by (simp add: tier_find_nat)
  have name: "tier_name (classifyAudienceTier (of_nat n)) =
        (if n \<le> 9999 then ''Nano''
         else if n \<le> 49999 then ''Micro''
         else if n \<le> 499999 then ''Mid-Tier''
         else if n \<le> 999999 then ''Macro''
         else ''Mega'')"
    unfolding classifyAudienceTier_def tier_find_nat
    by (simp add: AUDIENCE_TIERS_def)
  have examples:
    "map (\<lambda>s. tier_name (classifyAudienceTier s)) [500, 25000, 250000, 750000, 5000000]
        = [''Nano'', ''Micro'', ''Mid-Tier'', ''Macro'', ''Mega'']"
    by (simp add: classifyAudienceTier_def AUDIENCE_TIERS_def tier_matches_def)
  from found tier_filter_nat name examples show ?thesis by blast
qed

section \<open>Arithmetic and list facts\<close>

lemmas parseDuration_defs =
  parseDuration_def duration_match_def rx_group_def capture_val_def digitsVal_def
  digitVal_def isDigit_def

lemmas safeInt_defs = safeInt_def parseInt10_def isWhite_def isDigit_def digitsVal_def digitVal_def

lemma Math_round_bounds:
  assumes "0 \<le> x" and "x \<le> 100"
  shows "0 \<le> Math_round x" and "Math_round x \<le> 100"
proof -
  have "(0::int) \<le> \<lfloor>x + 1 / 2\<rfloor>" using assms(1) by (simp add: le_floor_iff)
  then show "0 \<le> Math_round x" by (simp add: Math_round_def)
  have "\<lfloor>x + 1 / 2\<rfloor> \<le> (100::int)" using assms(2) by (simp add: floor_le_iff)
  then have "(of_int \<lfloor>x + 1 / 2\<rfloor> :: real) \<le> of_int 100" by (simp only: of_int_le_iff)
  then show "Math_round x \<le> 100" by (simp add: Math_round_def)
qed

lemma Math_round_mono: "x \<le> y \<Longrightarrow> Math_round x \<le> Math_round y"
  by (simp add: Math_round_def floor_mono)

lemma clamp_bounds: "0 \<le> clamp n 0 100" "clamp n 0 100 \<le> 100"
  by (simp_all add: clamp_def)

lemma clamp_id: "0 \<le> n \<Longrightarrow> n \<le> 100 \<Longrightarrow> clamp n 0 100 = n"
  by (simp add: clamp_def)

lemma foldl_add_sum_list:
  fixes f :: "'a \<Rightarrow> real"
  shows "foldl (\<lambda>s v. s + f v) a xs = a + sum_list (map f xs)"
  by (induction xs arbitrary: a) simp_all

lemma length_gaps_of: "length (gaps_of A ds) = length ds - 1"
  by (induction A ds rule: gaps_of.induct) simp_all

section \<open>Properties of the normalizer\<close>

lemma parseDuration_PT_examples:
  "parseDuration ''PT1H2M30S'' = 3750 \<and> parseDuration ''PT45S'' = 45 \<and> parseDuration ''PT0S'' = 0"
  by (simp add: parseDuration_defs)

text \<open>
  Claim C1. The claim has durations with a day component parsed, "P1DT2H3M4S" to 93784
  seconds. The pattern of \<open>parseDuration\<close> wants the letters \<open>PT\<close> next to each other, so
  a duration with a day component has no match and parses to 0 seconds: "P1DT2H3M4S",
  and the two durations of the repository's tests, "P1DT12H" (expected 129600) and "P2D"
  (expected 172800). The normalized record then has 0 seconds and is not a short.
\<close>

theorem parseDuration_day_component:
  "parseDuration ''P1DT2H3M4S'' = 0
   \<and> parseDuration ''P1DT12H'' = 0
   \<and> parseDuration ''P2D'' = 0
   \<and> map (\<lambda>v. (duration v, durationSeconds v, isShort v))
        (parseVideos (\<lambda>s. Some 1736942400000) [makeRawVideo ''P1DT2H3M4S''])
      = [(''P1DT2H3M4S'', 0, False)]"
proof -
  have a: "parseDuration ''P1DT2H3M4S'' = 0" by (simp add: parseDuration_defs)
  have b: "parseDuration ''P1DT12H'' = 0" by (simp add: parseDuration_defs)
  have c: "parseDuration ''P2D'' = 0" by (simp add: parseDuration_defs)
  have d: "map (\<lambda>v. (duration v, durationSeconds v, isShort v))
        (parseVideos (\<lambda>s. Some 1736942400000) [makeRawVideo ''P1DT2H3M4S''])
      = [(''P1DT2H3M4S'', 0, False)]"
    by (simp add: parseVideos_def parseVideo_def makeRawVideo_def List.map_filter_simps
        opt_chain_def nullish_def a Let_def)
  from a b c d show ?thesis by blast
qed

section \<open>Properties of the composite score\<close>

lemma freqScore_one_to_two: "1 \<le> ppw \<Longrightarrow> ppw \<le> 2 \<Longrightarrow> freqScore ppw = 50 + (ppw - 1) * 40"
  by (auto simp add: freqScore_def)

lemma freqScore_low: "0 < ppw \<Longrightarrow> ppw < 0.25 \<Longrightarrow> freqScore ppw = 10"
  by (simp add: freqScore_def)

lemma freqScore_zero: "freqScore 0 = 0"
  by (simp add: freqScore_def)

lemma freqScore_quarter_to_one: "0.25 \<le> ppw \<Longrightarrow> ppw < 1 \<Longrightarrow> freqScore ppw = 50"
  by (simp add: freqScore_def)

lemma breakdown_frequency_eq:
  "breakdown_frequency (calculateCreatorFusionScore a c)
     = Math_round (clamp (freqScore (postsPerWeek a)) 0 100)"
  by (simp add: calculateCreatorFusionScore_def Let_def)

text \<open>
  Claim C2. The claim has the frequency sub-score rise linearly from 0 to 50 between 0.25
  and 1 posts per week. In that branch the source takes \<open>Math.min(50, ppw * 200)\<close> with
  \<open>ppw \<ge> 0.25\<close>, which is 50 throughout: at 0.25 and at 0.5 posts per week the
  sub-score, and the frequency entry of the breakdown, are 50. The other three pieces are
  as claimed (\<open>freqScore_one_to_two\<close>, \<open>freqScore_low\<close>, \<open>freqScore_zero\<close>).
\<close>

theorem freqScore_flat_below_one:
  "freqScore (1 / 4) = 50 \<and> freqScore (1 / 2) = 50
   \<and> breakdown_frequency (calculateCreatorFusionScore (a\<lparr>postsPerWeek := 1 / 4\<rparr>) c) = 50
   \<and> breakdown_frequency (calculateCreatorFusionScore (a\<lparr>postsPerWeek := 1 / 2\<rparr>) c) = 50"
proof -
  have q: "freqScore (1 / 4) = 50" by (simp add: freqScore_def)
  have h: "freqScore (1 / 2) = 50" by (simp add: freqScore_def)
  have r: "Math_round (clamp 50 0 100) = 50" by (simp add: clamp_def Math_round_def)
  show ?thesis by (simp add: breakdown_frequency_eq q h r)
qed


lemma fusion_score_shape:
  "\<exists>e k f v u.
     score (calculateCreatorFusionScore a c) =
       clamp (Math_round (clamp e 0 100 * 0.35 + clamp k 0 100 * 0.20 + clamp f 0 100 * 0.15
                          + clamp v 0 100 * 0.15 + clamp u 0 100 * 0.15)) 0 100
     \<and> grade (calculateCreatorFusionScore a c) =
       scoreToGrade (Math_round (clamp e 0 100 * 0.35 + clamp k 0 100 * 0.20 + clamp f 0 100 * 0.15
                          + clamp v 0 100 * 0.15 + clamp u 0 100 * 0.15))"
  by (simp add: calculateCreatorFusionScore_def Let_def) blast

lemma weighted_bounds:
  fixes e k f v u :: real
  assumes "0 \<le> e" "e \<le> 100" "0 \<le> k" "k \<le> 100" "0 \<le> f" "f \<le> 100"
    "0 \<le> v" "v \<le> 100" "0 \<le> u" "u \<le> 100"
  shows "0 \<le> e * 0.35 + k * 0.20 + f * 0.15 + v * 0.15 + u * 0.15"
    and "e * 0.35 + k * 0.20 + f * 0.15 + v * 0.15 + u * 0.15 \<le> 100"
  using assms by simp_all

lemma scoreToGrade_bands:
  "(scoreToGrade s = ''A+'') = (90 \<le> s)"
  "(scoreToGrade s = ''A'') = (80 \<le> s \<and> s < 90)"
  "(scoreToGrade s = ''B+'') = (70 \<le> s \<and> s < 80)"
  "(scoreToGrade s = ''B'') = (60 \<le> s \<and> s < 70)"
  "(scoreToGrade s = ''C+'') = (50 \<le> s \<and> s < 60)"
  "(scoreToGrade s = ''C'') = (40 \<le> s \<and> s < 50)"
  "(scoreToGrade s = ''D'') = (30 \<le> s \<and> s < 40)"
  "(scoreToGrade s = ''F'') = (s < 30)"
  by (auto simp add: scoreToGrade_def)

text \<open>
  Claim C6. For every analytics record and all channel statistics the score of
  \<open>calculateCreatorFusionScore\<close> lies in [0, 100], the grade is the grade of that score,
  and the grade follows the inclusive lower bounds 90 A+, 80 A, 70 B+, 60 B, 50 C+, 40 C,
  30 D, below 30 F; a score of 87 is graded A, 50 is graded C+ and 29 is graded F.
\<close>

theorem calculateCreatorFusionScore_score_grade:
  "0 \<le> score (calculateCreatorFusionScore a c)
   \<and> score (calculateCreatorFusionScore a c) \<le> 100
   \<and> grade (calculateCreatorFusionScore a c) = scoreToGrade (score (calculateCreatorFusionScore a c))
   \<and> (grade (calculateCreatorFusionScore a c) = ''A+'') = (90 \<le> score (calculateCreatorFusionScore a c))
   \<and> (grade (calculateCreatorFusionScore a c) = ''A'')
        = (80 \<le> score (calculateCreatorFusionScore a c) \<and> score (calculateCreatorFusionScore a c) < 90)
   \<and> (grade (calculateCreatorFusionScore a c) = ''B+'')
        = (70 \<le> score (calculateCreatorFusionScore a c) \<and> score (calculateCreatorFusionScore a c) < 80)
   \<and> (grade (calculateCreatorFusionScore a c) = ''B'')
        = (60 \<le> score (calculateCreatorFusionScore a c) \<and> score (calculateCreatorFusionScore a c) < 70)
   \<and> (grade (calculateCreatorFusionScore a c) = ''C+'')
        = (50 \<le> score (calculateCreatorFusionScore a c) \<and> score (calculateCreatorFusionScore a c) < 60)
   \<and> (grade (calculateCreatorFusionScore a c) = ''C'')
        = (40 \<le> score (calculateCreatorFusionScore a c) \<and> score (calculateCreatorFusionScore a c) < 50)
   \<and> (grade (calculateCreatorFusionScore a c) = ''D'')
        = (30 \<le> score (calculateCreatorFusionScore a c) \<and> score (calculateCreatorFusionScore a c) < 40)
   \<and> (grade (calculateCreatorFusionScore a c) = ''F'') = (score (calculateCreatorFusionScore a c) < 30)
   \<and> scoreToGrade 87 = ''A'' \<and> scoreToGrade 50 = ''C+'' \<and> scoreToGrade 29 = ''F''"
proof -
  obtain e k f v u where
    sc: "score (calculateCreatorFusionScore a c) =
       clamp (Math_round (clamp e 0 100 * 0.35 + clamp k 0 100 * 0.20 + clamp f 0 100 * 0.15
                          + clamp v 0 100 * 0.15 + clamp u 0 100 * 0.15)) 0 100"
    and gr: "grade (calculateCreatorFusionScore a c) =
       scoreToGrade (Math_round (clamp e 0 100 * 0.35 + clamp k 0 100 * 0.20 + clamp f 0 100 * 0.15
                          + clamp v 0 100 * 0.15 + clamp u 0 100 * 0.15))"
    using fusion_score_shape [of a c] by blast
  define w where "w = clamp e 0 100 * 0.35 + clamp k 0 100 * 0.20 + clamp f 0 100 * 0.15
                          + clamp v 0 100 * 0.15 + clamp u 0 100 * 0.15"
  have w0: "0 \<le> w" and w100: "w \<le> 100"
    unfolding w_def by (rule weighted_bounds; rule clamp_bounds)+
  have r0: "0 \<le> Math_round w" and r100: "Math_round w \<le> 100"
    using Math_round_bounds [OF w0 w100] by blast+
  have sc': "score (calculateCreatorFusionScore a c) = Math_round w"
    using sc clamp_id [OF r0 r100] by (simp add: w_def)
  have gr': "grade (calculateCreatorFusionScore a c) = scoreToGrade (score (calculateCreatorFusionScore a c))"
    using gr sc' by (simp add: w_def)
  have ex: "scoreToGrade 87 = ''A'' \<and> scoreToGrade 50 = ''C+'' \<and> scoreToGrade 29 = ''F''"
    by (simp add: scoreToGrade_def)
  show ?thesis
    unfolding gr' scoreToGrade_bands
    using r0 r100 ex by (simp add: sc')
qed

section \<open>Properties of the analyzer\<close>

lemma fmul_commute: "fmul A a b = fmul A b a"
  by (simp add: fmul_def mult.commute)

lemma fold_sum_js: "foldl (\<lambda>s g. fadd A s (h g)) 0 gaps = sum_js A (map h gaps)"
  by (simp add: sum_js_def foldl_map)

lemma consistency_of_gaps_formula:
  assumes "2 \<le> length gaps"
  shows "consistency_of_gaps A gaps =
     max 0 (Math_round (fmul A 100 (fsub A 1
        (min (fdiv A (populationStdDev A gaps) (max (mean A gaps) 1)) 1))))"
proof -
  have m: "fdiv A (sum_js A gaps) (of_nat (length gaps)) = mean A gaps"
    by (simp add: mean_def)
  have v: "foldl (\<lambda>s g. fadd A s (pow2 A (fsub A g (mean A gaps)))) 0 gaps
             = sum_js A (map (\<lambda>x. pow2 A (fsub A x (mean A gaps))) gaps)"
    by (rule fold_sum_js)
  have "consistency_of_gaps A gaps =
     max 0 (Math_round (fmul A (fsub A 1
        (min (fdiv A (populationStdDev A gaps) (max (mean A gaps) 1)) 1)) 100))"
    using assms by (simp add: consistency_of_gaps_def Let_def m v populationStdDev_def)
  then show ?thesis by (simp add: fmul_commute)
qed

lemma postingConsistency_gaps:
  "parsed \<noteq> [] \<Longrightarrow>
     postingConsistency (analyzeVideos A parsed subs) = consistency_of_gaps A (publish_gaps A parsed)"
  by (simp add: analyzeVideos_def Let_def publish_gaps_def)

lemma length_publish_gaps: "length (publish_gaps A parsed) = length parsed - 1"
  by (simp add: publish_gaps_def length_gaps_of)

text \<open>
  Claim C5, amended. For a list of at least three normalized videos the posting
  consistency is round(100 * (1 - min(populationStdDev(gaps) / max(mean(gaps), 1), 1))),
  floored at 0: the standard deviation is divided by the mean gap or by one day,
  whichever is larger. The formula is computed as the source computes it, in the
  arithmetic of the runtime and from left to right, so the equation holds for the doubles
  of the program as it does for exact numbers. With two videos the consistency is 60 and
  with one video it is 100.
\<close>

theorem postingConsistency_formula:
  "(3 \<le> length parsed \<longrightarrow>
      postingConsistency (analyzeVideos A parsed subs) =
        max 0 (Math_round (fmul A 100 (fsub A 1
          (min (fdiv A (populationStdDev A (publish_gaps A parsed))
                       (max (mean A (publish_gaps A parsed)) 1)) 1)))))
   \<and> (length parsed = 2 \<longrightarrow> postingConsistency (analyzeVideos A parsed subs) = 60)
   \<and> (length parsed = 1 \<longrightarrow> postingConsistency (analyzeVideos A parsed subs) = 100)"
proof (intro conjI impI)
  assume len: "3 \<le> length parsed"
  then have ne: "parsed \<noteq> []" by auto
  have "2 \<le> length (publish_gaps A parsed)" using len by (simp add: length_publish_gaps)
  then show "postingConsistency (analyzeVideos A parsed subs) =
        max 0 (Math_round (fmul A 100 (fsub A 1
          (min (fdiv A (populationStdDev A (publish_gaps A parsed))
                       (max (mean A (publish_gaps A parsed)) 1)) 1))))"
    by (simp add: postingConsistency_gaps [OF ne] consistency_of_gaps_formula)
next
  assume len: "length parsed = 2"
  then have ne: "parsed \<noteq> []" by auto
  have "length (publish_gaps A parsed) = 1" using len by (simp add: length_publish_gaps)
  then show "postingConsistency (analyzeVideos A parsed subs) = 60"
    by (simp add: postingConsistency_gaps [OF ne] consistency_of_gaps_def)
next
  assume len: "length parsed = 1"
  then have ne: "parsed \<noteq> []" by auto
  have "length (publish_gaps A parsed) = 0" using len by (simp add: length_publish_gaps)
  then show "postingConsistency (analyzeVideos A parsed subs) = 100"
    by (simp add: postingConsistency_gaps [OF ne] consistency_of_gaps_def)
qed

subsection \<open>Three videos within one day\<close>

text \<open>
  Three videos published 6 and 18 hours apart. In every arithmetic that does not round
  the numbers of \<open>example_values\<close>, squares a quarter to a sixteenth and takes the root
  of a sixteenth as a quarter, which the doubles of the runtime do, the gaps are 0.25 and
  0.75 days, their mean is 0.5 and their standard deviation 0.25.
\<close>

lemma three_videos_any_arith:
  assumes ex: "\<forall>x \<in> set example_values. rnd A x = x"
    and sq: "pow2 A (1 / 4) = 1 / 16" "pow2 A (- (1 / 4)) = 1 / 16"
    and rt: "sqrt_js A (1 / 16) = 1 / 4"
  shows "publish_gaps A [video_at 86400000, video_at 21600000, video_at 0] = [1 / 4, 3 / 4]"
    and "mean A [1 / 4, 3 / 4] = 1 / 2"
    and "populationStdDev A [1 / 4, 3 / 4] = 1 / 4"
    and "postingConsistency (analyzeVideos A [video_at 86400000, video_at 21600000, video_at 0] 50000) = 75"
    and "max 0 (Math_round (fmul A 100 (fsub A 1
           (min (fdiv A (populationStdDev A [1 / 4, 3 / 4]) (mean A [1 / 4, 3 / 4])) 1)))) = 50"
proof -
  have r: "rnd A 21600000 = 21600000" "rnd A 64800000 = 64800000" "rnd A (1 / 4) = 1 / 4"
    "rnd A (3 / 4) = 3 / 4" "rnd A 1 = 1" "rnd A (1 / 2) = 1 / 2" "rnd A (- (1 / 4)) = - (1 / 4)"
    "rnd A (1 / 16) = 1 / 16" "rnd A (1 / 8) = 1 / 8" "rnd A 50 = 50" "rnd A 75 = 75"
    using ex by (simp_all add: example_values_def)
  show g: "publish_gaps A [video_at 86400000, video_at 21600000, video_at 0] = [1 / 4, 3 / 4]"
    by (simp add: publish_gaps_def video_at_def fdiv_def fsub_def r)
  show m: "mean A [1 / 4, 3 / 4] = 1 / 2"
    by (simp add: mean_def sum_js_def fadd_def fdiv_def r)
  show sd: "populationStdDev A [1 / 4, 3 / 4] = 1 / 4"
    by (simp add: populationStdDev_def m sum_js_def fadd_def fsub_def fdiv_def r sq rt)
  have ne: "[video_at 86400000, video_at 21600000, video_at 0] \<noteq> []" by simp
  have "consistency_of_gaps A [1 / 4, 3 / 4] = 75"
    by (simp add: consistency_of_gaps_formula m sd fdiv_def fsub_def fmul_def r Math_round_def)
  then show "postingConsistency (analyzeVideos A [video_at 86400000, video_at 21600000, video_at 0] 50000) = 75"
    by (simp add: postingConsistency_gaps [OF ne] g)
  show "max 0 (Math_round (fmul A 100 (fsub A 1
           (min (fdiv A (populationStdDev A [1 / 4, 3 / 4]) (mean A [1 / 4, 3 / 4])) 1)))) = 50"
    by (simp add: m sd fdiv_def fsub_def fmul_def r Math_round_def)
qed

lemma sqrt_sixteenth: "sqrt (1 / 16) = 1 / 4"
  by (rule real_sqrt_unique) (simp_all add: power2_eq_square)

lemma exact_arith_example:
  "\<forall>x \<in> set example_values. rnd exact_arith x = x"
  "pow2 exact_arith (1 / 4) = 1 / 16" "pow2 exact_arith (- (1 / 4)) = 1 / 16"
  "sqrt_js exact_arith (1 / 16) = 1 / 4"
  by (simp_all add: exact_arith_def power2_eq_square sqrt_sixteenth)

text \<open>
  Claim C5 as stated divides by the mean gap alone. For the three videos the analyzer
  returns 75, the claimed formula gives 50; every number on the way is a double, so the
  doubles of the program give the same two values (\<open>three_videos_any_arith\<close>).
\<close>

theorem postingConsistency_counterexample:
  "postingConsistency
     (analyzeVideos exact_arith [video_at 86400000, video_at 21600000, video_at 0] 50000) = 75
   \<and> max 0 (Math_round (fmul exact_arith 100 (fsub exact_arith 1 (min
        (fdiv exact_arith
           (populationStdDev exact_arith
              (publish_gaps exact_arith [video_at 86400000, video_at 21600000, video_at 0]))
           (mean exact_arith
              (publish_gaps exact_arith [video_at 86400000, video_at 21600000, video_at 0]))) 1)))) = 50"
  using three_videos_any_arith(1,4,5) [OF exact_arith_example] by simp

theorem postingConsistency_formula_witness:
  "3 \<le> length [video_at 86400000, video_at 21600000, video_at 0]
   \<and> postingConsistency
       (analyzeVideos exact_arith [video_at 86400000, video_at 21600000, video_at 0] 50000) = 75
   \<and> length [video_at 86400000, video_at 0] = 2
   \<and> postingConsistency (analyzeVideos exact_arith [video_at 86400000, video_at 0] 50000) = 60
   \<and> length [video_at 0] = 1
   \<and> postingConsistency (analyzeVideos exact_arith [video_at 0] 50000) = 100"
proof -
  have r: "rnd exact_arith x = x" for x by (simp add: exact_arith_def)
  have three: "postingConsistency
       (analyzeVideos exact_arith [video_at 86400000, video_at 21600000, video_at 0] 50000) = 75"
    using postingConsistency_formula [of "[video_at 86400000, video_at 21600000, video_at 0]" exact_arith 50000]
    by (simp add: three_videos_any_arith(1,2,3) [OF exact_arith_example]
        fdiv_def fsub_def fmul_def r Math_round_def)
  have two: "postingConsistency (analyzeVideos exact_arith [video_at 86400000, video_at 0] 50000) = 60"
    using postingConsistency_formula [of "[video_at 86400000, video_at 0]" exact_arith 50000] by simp
  have one: "postingConsistency (analyzeVideos exact_arith [video_at 0] 50000) = 100"
    using postingConsistency_formula [of "[video_at 0]" exact_arith 50000] by simp
  from three two one show ?thesis by simp
qed

section \<open>Properties of the rate card\<close>

lemma Math_round_nonneg: "0 \<le> x \<Longrightarrow> 0 \<le> Math_round x"
  by (simp add: Math_round_def le_floor_iff)

lemma Math_round_nonpos: "x \<le> 0 \<Longrightarrow> Math_round x \<le> 0"
proof -
  assume "x \<le> 0"
  then have "\<lfloor>x + 1 / 2\<rfloor> \<le> (0::int)" by (simp add: floor_le_iff)
  then have "(of_int \<lfloor>x + 1 / 2\<rfloor> :: real) \<le> of_int 0" by (simp only: of_int_le_iff)
  then show ?thesis by (simp add: Math_round_def)
qed

lemma nicheStep_ge1: "1 \<le> fst st \<Longrightarrow> 1 \<le> fst (nicheStep cat st e)"
  by (simp add: nicheStep_def)

lemma nicheTable_ge1: "1 \<le> fst st \<Longrightarrow> 1 \<le> fst (foldl (nicheStep cat) st es)"
  by (induction es arbitrary: st) (simp_all add: nicheStep_ge1)

lemma nicheCats_ge1:
  "1 \<le> fst st \<Longrightarrow> 1 \<le> fst (foldl (\<lambda>st cat. foldl (nicheStep cat) st NICHE_MULTIPLIERS) st cats)"
  by (induction cats arbitrary: st) (simp_all add: nicheTable_ge1)

lemma nicheScan_ge1: "1 \<le> fst (nicheScan cats)"
  unfolding nicheScan_def by (rule nicheCats_ge1) simp

lemma engagementMultiplierOf_pos: "0 < engagementMultiplierOf s"
  by (simp add: engagementMultiplierOf_def)

lemma calcRate_ordered:
  assumes c: "0 \<le> low c" "low c \<le> mid c" "mid c \<le> high c"
    and tm: "0 \<le> tm" and qm: "0 \<le> qm"
    and f: "0 \<le> f" "f \<le> Math_round (f * 1.5)"
  shows "ordered (calcRate v (Own c) tm qm (Some f))"
    and "\<exists>m. mid (calcRate v (Own c) tm qm (Some f)) = Some m \<and> 0 \<le> m"
proof -
  define R where "R x = Math_round ((v / 1000) * x * tm * qm)" for x
  have f15: "0 \<le> Math_round (f * 1.5)" using f by linarith
  have f25: "Math_round (f * 1.5) \<le> Math_round (f * 2.5)"
    using f(1) by (intro Math_round_mono) simp
  have shape: "calcRate v (Own c) tm qm (Some f) =
      \<lparr>low = Some (max (R (low c)) f), mid = Some (max (R (mid c)) (Math_round (f * 1.5))),
       high = Some (max (R (high c)) (Math_round (f * 2.5)))\<rparr>"
    by (simp add: calcRate_def field_def nan_max_def R_def)
  show "\<exists>m. mid (calcRate v (Own c) tm qm (Some f)) = Some m \<and> 0 \<le> m"
    using f15 by (simp add: shape)
  show "ordered (calcRate v (Own c) tm qm (Some f))"
  proof (cases "0 \<le> v")
    case True
    have k: "0 \<le> v / 1000" using True by simp
    have mono: "x \<le> y \<Longrightarrow> R x \<le> R y" for x y
      unfolding R_def
      by (intro Math_round_mono mult_right_mono mult_left_mono k tm qm)
    from mono [OF c(2)] mono [OF c(3)] f f25 show ?thesis
      by (auto simp add: shape ordered_def js_le_def)
  next
    case False
    have neg: "0 \<le> x \<Longrightarrow> R x \<le> 0" for x
    proof -
      assume x: "0 \<le> x"
      have "v / 1000 * x \<le> 0" using False x by (simp add: mult_nonpos_nonneg)
      then have "v / 1000 * x * tm \<le> 0" using tm by (simp add: mult_nonpos_nonneg)
      then have "v / 1000 * x * tm * qm \<le> 0" using qm by (simp add: mult_nonpos_nonneg)
      then show "R x \<le> 0" unfolding R_def by (rule Math_round_nonpos)
    qed
    have "R (low c) \<le> 0" "R (mid c) \<le> 0" "R (high c) \<le> 0"
      using c by (auto intro: neg)
    with f f15 f25 show ?thesis
      by (auto simp add: shape ordered_def js_le_def)
  qed
qed

lemma base_cpm_resolved:
  assumes "tier \<notin> set Object_prototype_keys"
  shows "\<exists>c. nullish_opt (js_get BASE_CPM tier) (js_get BASE_CPM ''Mid-Tier'') = Some (Own c)
           \<and> 0 \<le> low c \<and> low c \<le> mid c \<and> mid c \<le> high c"
  using assms by (simp add: js_get_def nullish_opt_def BASE_CPM_def)

lemma floor_steps:
  "(100::real) \<le> Math_round (100 * 1.5)" "(200::real) \<le> Math_round (200 * 1.5)"
  "(50::real) \<le> Math_round (50 * 1.5)" "(500::real) \<le> Math_round (500 * 1.5)"
  "(1000::real) \<le> Math_round (1000 * 1.5)" "(150::real) \<le> Math_round (150 * 1.5)"
  "(2500::real) \<le> Math_round (2500 * 1.5)" "(5000::real) \<le> Math_round (5000 * 1.5)"
  "(10000::real) \<le> Math_round (10000 * 1.5)" "(25000::real) \<le> Math_round (25000 * 1.5)"
  "(2000::real) \<le> Math_round (2000 * 1.5)" "(30000::real) \<le> Math_round (30000 * 1.5)"
  "(75000::real) \<le> Math_round (75000 * 1.5)"
  by (simp_all add: Math_round_def)

lemma tier_floors_resolved:
  assumes "tier \<notin> set Object_prototype_keys"
  shows "\<exists>fl. nullish_opt (js_get TIER_FLOORS tier) (js_get TIER_FLOORS ''Mid-Tier'') = Some (Own fl)
           \<and> 0 \<le> integration fl \<and> integration fl \<le> Math_round (integration fl * 1.5)
           \<and> 0 \<le> dedicated fl \<and> dedicated fl \<le> Math_round (dedicated fl * 1.5)
           \<and> 0 \<le> shorts fl \<and> shorts fl \<le> Math_round (shorts fl * 1.5)"
  using assms floor_steps by (simp add: js_get_def nullish_opt_def TIER_FLOORS_def)

lemma usage_ordered:
  assumes "0 \<le> m"
  shows "ordered \<lparr>low = map_option (\<lambda>m. Math_round (m * 0.3)) (Some m),
                  mid = map_option (\<lambda>m. Math_round (m * 0.65)) (Some m),
                  high = map_option (\<lambda>m. Math_round (m * 1.0)) (Some m)\<rparr>"
proof -
  have "Math_round (m * 0.3) \<le> Math_round (m * 0.65)"
    using assms by (intro Math_round_mono) simp
  moreover have "Math_round (m * 0.65) \<le> Math_round (m * 1.0)"
    using assms by (intro Math_round_mono) simp
  ultimately show ?thesis by (simp add: ordered_def js_le_def)
qed

text \<open>
  Where the pricing tables resolve the tier, the card is ordered: for every average view
  count, subscriber count, engagement rate, score, category list and sponsorship input,
  and for every tier that is not the name of a property inherited from
  \<open>Object.prototype\<close> (the five tier names, and every other such label, which falls back
  to Mid-Tier), \<open>generateRateCard\<close> returns a card whose four price triples, integration,
  dedicated video, Shorts and usage-rights addon, each satisfy low \<open>\<le>\<close> mid \<open>\<le>\<close> high.
\<close>

lemma generateRateCard_ordered:
  assumes "tier \<notin> set Object_prototype_keys"
  shows "\<exists>card. generateRateCard avgViews' subscribers tier engagementRate' creatorFusionScore
                   contentCategories sponsorship = Inr card
           \<and> ordered (estimatedIntegrationRate card)
           \<and> ordered (estimatedDedicatedRate card)
           \<and> ordered (estimatedShortsRate card)
           \<and> ordered (usageRightsAddon card)"
proof -
  obtain c where c: "nullish_opt (js_get BASE_CPM tier) (js_get BASE_CPM ''Mid-Tier'') = Some (Own c)"
    and cb: "0 \<le> low c" "low c \<le> mid c" "mid c \<le> high c"
    using base_cpm_resolved [OF assms] by blast
  obtain fl where fl: "nullish_opt (js_get TIER_FLOORS tier) (js_get TIER_FLOORS ''Mid-Tier'') = Some (Own fl)"
    and fi: "0 \<le> integration fl" "integration fl \<le> Math_round (integration fl * 1.5)"
    and fd: "0 \<le> dedicated fl" "dedicated fl \<le> Math_round (dedicated fl * 1.5)"
    and fs: "0 \<le> shorts fl" "shorts fl \<le> Math_round (shorts fl * 1.5)"
    using tier_floors_resolved [OF assms] by blast
  define q where "q = fst (nicheScan contentCategories) * engagementMultiplierOf creatorFusionScore"
  have q: "0 \<le> q"
    unfolding q_def using nicheScan_ge1 [of contentCategories] engagementMultiplierOf_pos [of creatorFusionScore]
    by simp
  have i: "ordered (calcRate avgViews' (Own c) 1.0 q (Some (integration fl)))"
    by (rule calcRate_ordered [OF cb _ q fi]) simp
  have "\<exists>m. mid (calcRate avgViews' (Own c) 1.0 q (Some (integration fl))) = Some m \<and> 0 \<le> m"
    by (rule calcRate_ordered(2) [OF cb _ q fi]) simp
  then obtain m where m: "mid (calcRate avgViews' (Own c) 1.0 q (Some (integration fl))) = Some m" "0 \<le> m"
    by blast
  have d: "ordered (calcRate avgViews' (Own c) 2.0 q (Some (dedicated fl)))"
    by (rule calcRate_ordered [OF cb _ q fd]) simp
  have s: "ordered (calcRate (avgViews' * 0.6) (Own c) 0.3 q (Some (shorts fl)))"
    by (rule calcRate_ordered [OF cb _ q fs]) simp
  have u: "ordered \<lparr>low = map_option (\<lambda>m. Math_round (m * 0.3)) (Some m),
                  mid = map_option (\<lambda>m. Math_round (m * 0.65)) (Some m),
                  high = map_option (\<lambda>m. Math_round (m * 1.0)) (Some m)\<rparr>"
    by (rule usage_ordered [OF m(2)])
  show ?thesis
    using i d s u m(1)
    by (simp add: generateRateCard_def c fl Let_def field_def q_def)
qed


lemma generateRateCard_ordered_examples:
  "''Mid-Tier'' \<notin> set Object_prototype_keys
   \<and> ''Unlisted'' \<notin> set Object_prototype_keys
   \<and> (\<exists>card. generateRateCard 50000 100000 ''Mid-Tier'' 4.5 72 [''Technology''] None = Inr card
           \<and> ordered (estimatedIntegrationRate card)
           \<and> ordered (estimatedDedicatedRate card)
           \<and> ordered (estimatedShortsRate card)
           \<and> ordered (usageRightsAddon card))
   \<and> (\<exists>card. generateRateCard (- 50000) 100000 ''Unlisted'' 4.5 20 [] None = Inr card
           \<and> ordered (estimatedIntegrationRate card)
           \<and> ordered (estimatedDedicatedRate card)
           \<and> ordered (estimatedShortsRate card)
           \<and> ordered (usageRightsAddon card))"
proof -
  have a: "''Mid-Tier'' \<notin> set Object_prototype_keys" by (simp add: Object_prototype_keys_def)
  have b: "''Unlisted'' \<notin> set Object_prototype_keys" by (simp add: Object_prototype_keys_def)
  from a b generateRateCard_ordered [OF a, of 50000 100000 "4.5" 72 "[''Technology'']" None]
    generateRateCard_ordered [OF b, of "- 50000" 100000 "4.5" 20 "[]" None]
  show ?thesis by blast
qed

subsection \<open>The tier argument\<close>

lemma inherited_base_cpm: "js_get BASE_CPM ''constructor'' = Some Inherited"
  by (simp add: js_get_def BASE_CPM_def Object_prototype_keys_def)

lemma inherited_tier_floors: "js_get TIER_FLOORS ''constructor'' = Some Inherited"
  by (simp add: js_get_def TIER_FLOORS_def Object_prototype_keys_def)

lemma mid_tier_base_cpm: "js_get BASE_CPM ''Mid-Tier'' = Some (Own \<lparr>low = 15, mid = 22, high = 35\<rparr>)"
  by (simp add: js_get_def BASE_CPM_def)

lemma mid_tier_floors:
  "js_get TIER_FLOORS ''Mid-Tier'' = Some (Own \<lparr>integration = 2500, dedicated = 5000, shorts = 500\<rparr>)"
  by (simp add: js_get_def TIER_FLOORS_def)

lemma nicheScan_Nil: "nicheScan [] = (1, ''General'')"
  by (simp add: nicheScan_def)

lemma engagementMultiplierOf_72: "engagementMultiplierOf 72 = 1.1"
  by (simp add: engagementMultiplierOf_def)

lemma unknown_tier_lookup:
  assumes "tier \<notin> set TIER_NAMES" and "tier \<notin> set Object_prototype_keys"
  shows "js_get BASE_CPM tier = None" and "js_get TIER_FLOORS tier = None"
  using assms
  by (simp_all add: js_get_def BASE_CPM_def TIER_FLOORS_def TIER_NAMES_def AUDIENCE_TIERS_def)

lemma generateRateCard_unknown_tier:
  assumes "tier \<notin> set TIER_NAMES" and "tier \<notin> set Object_prototype_keys"
  shows "generateRateCard v s tier e sc cats sp = generateRateCard v s ''Mid-Tier'' e sc cats sp"
  by (simp add: generateRateCard_def unknown_tier_lookup [OF assms] mid_tier_base_cpm mid_tier_floors
      nullish_opt_def)

lemma generateRateCard_total: "\<exists>card. generateRateCard v s tier e sc cats sp = Inr card"
  by (simp add: generateRateCard_def js_get_def nullish_opt_def BASE_CPM_def TIER_FLOORS_def Let_def
      split: option.splits)

lemma constructor_integration:
  "map_sum id estimatedIntegrationRate (generateRateCard 1000000 100000 ''constructor'' 4.5 72 [] None)
     = Inr \<lparr>low = None, mid = None, high = None\<rparr>"
  by (simp add: generateRateCard_def inherited_base_cpm inherited_tier_floors nullish_opt_def Let_def
      calcRate_def field_def nan_max_def)

lemma mid_tier_integration:
  "map_sum id estimatedIntegrationRate (generateRateCard 1000000 100000 ''Mid-Tier'' 4.5 72 [] None)
     = Inr \<lparr>low = Some 16500, mid = Some 24200, high = Some 38500\<rparr>"
  by (simp add: generateRateCard_def mid_tier_base_cpm mid_tier_floors nullish_opt_def Let_def
      calcRate_def field_def nan_max_def nicheScan_Nil engagementMultiplierOf_72 Math_round_def)

text \<open>
  Claim C10. The claim has every string that is not a tier name priced from the Mid-Tier
  tables. \<open>generateRateCard\<close> never throws (\<open>generateRateCard_total\<close>), and a label that
  no object has as a property is priced as Mid-Tier (\<open>generateRateCard_unknown_tier\<close>). The
  label "constructor" is not a tier name either, but \<open>BASE_CPM['constructor']\<close> is the
  inherited \<open>Object\<close> function, which is not nullish: the \<open>??\<close> default is not taken, the
  fields \<open>low\<close>, \<open>mid\<close>, \<open>high\<close> and the floors are \<open>undefined\<close>, and every price is
  \<open>NaN\<close>, where Mid-Tier gives 16500, 24200 and 38500 for a million views.
\<close>

theorem generateRateCard_inherited_tier:
  "''constructor'' \<notin> set TIER_NAMES
   \<and> map_sum id estimatedIntegrationRate (generateRateCard 1000000 100000 ''constructor'' 4.5 72 [] None)
       = Inr \<lparr>low = None, mid = None, high = None\<rparr>
   \<and> map_sum id estimatedIntegrationRate (generateRateCard 1000000 100000 ''Mid-Tier'' 4.5 72 [] None)
       = Inr \<lparr>low = Some 16500, mid = Some 24200, high = Some 38500\<rparr>
   \<and> \<not> ordered \<lparr>low = None, mid = None, high = None\<rparr>"
proof -
  have "''constructor'' \<notin> set TIER_NAMES" by (simp add: TIER_NAMES_def AUDIENCE_TIERS_def)
  moreover have "\<not> ordered \<lparr>low = None, mid = None, high = None\<rparr>" by (simp add: ordered_def js_le_def)
  ultimately show ?thesis using constructor_integration mid_tier_integration by blast
qed

lemma constructor_card:
  "map_sum id (\<lambda>c. (estimatedIntegrationRate c, estimatedDedicatedRate c, estimatedShortsRate c,
                      usageRightsAddon c))
     (generateRateCard 1000000 100000 ''constructor'' 4.5 72 [] None)
   = Inr (\<lparr>low = None, mid = None, high = None\<rparr>, \<lparr>low = None, mid = None, high = None\<rparr>,
          \<lparr>low = None, mid = None, high = None\<rparr>, \<lparr>low = None, mid = None, high = None\<rparr>)"
  by (simp add: generateRateCard_def inherited_base_cpm inherited_tier_floors nullish_opt_def Let_def
      calcRate_def field_def nan_max_def)

text \<open>
  Claim C9. The claim has the four price triples of every rate card ordered, low
  \<open>\<le>\<close> mid \<open>\<le>\<close> high, whatever the tier passed in. For the tier "constructor" the lookups
  find the inherited \<open>Object\<close> function instead of a table entry, every price of the card is
  \<open>NaN\<close>, and a comparison with \<open>NaN\<close> is false: none of the four triples is ordered.
  For every other tier the claim holds (\<open>generateRateCard_ordered\<close>).
\<close>

theorem generateRateCard_constructor_unordered:
  "map_sum id (\<lambda>c. [ordered (estimatedIntegrationRate c), ordered (estimatedDedicatedRate c),
                      ordered (estimatedShortsRate c), ordered (usageRightsAddon c)])
     (generateRateCard 1000000 100000 ''constructor'' 4.5 72 [] None)
   = Inr [False, False, False, False]"
proof -
  have nan: "\<not> ordered \<lparr>low = None, mid = None, high = None\<rparr>"
    by (simp add: ordered_def js_le_def)
  obtain card where card: "generateRateCard 1000000 100000 ''constructor'' 4.5 72 [] None = Inr card"
    using generateRateCard_total by blast
  have
    "estimatedIntegrationRate card = \<lparr>low = None, mid = None, high = None\<rparr>"
    "estimatedDedicatedRate card = \<lparr>low = None, mid = None, high = None\<rparr>"
    "estimatedShortsRate card = \<lparr>low = None, mid = None, high = None\<rparr>"
    "usageRightsAddon card = \<lparr>low = None, mid = None, high = None\<rparr>"
    using constructor_card unfolding card by simp_all
  with nan show ?thesis unfolding card by simp
qed

subsection \<open>The niche adjustment\<close>

lemma niche_table_gaming: "foldl (nicheStep ''Gaming'') (1, ''General'') NICHE_MULTIPLIERS = (1, ''General'')"
  unfolding NICHE_MULTIPLIERS_def
  by (simp add: nicheStep_def toLowerCase_def lower_char_def)

lemma niche_table_technology:
  "foldl (nicheStep ''Technology'') (1, ''General'') NICHE_MULTIPLIERS = (1.3, ''Technology'')"
  unfolding NICHE_MULTIPLIERS_def
  by (simp add: nicheStep_def toLowerCase_def lower_char_def)

lemma nicheScan_technology: "nicheScan [''Technology''] = (1.3, ''Technology'')"
  by (simp add: nicheScan_def niche_table_technology)

lemma niche_technology_card:
  "map_sum id (\<lambda>c. (niche_category c, niche_multiplier c))
     (generateRateCard 50000 100000 ''Mid-Tier'' 4.5 72 [''Technology''] None) = Inr (''Technology'', 1.3)"
  by (simp add: generateRateCard_def mid_tier_base_cpm mid_tier_floors nullish_opt_def Let_def
      nicheScan_technology r2_def Math_round_def)

text \<open>
  Claim C4. The claim has a matching niche always carried into the adjustment, with the
  highest matching multiplier. The loop starts from 1.0 and replaces the multiplier only
  by a greater one, so a niche whose multiplier is at most 1.0 is never taken
  (\<open>nicheScan_ge1\<close>): for the single category "Gaming", which matches the entry
  Gaming 0.9, the adjustment stays "General" with multiplier 1. The category "Technology"
  gives 1.3 and "Technology", as claimed (\<open>niche_technology_card\<close>).
\<close>

theorem nicheScan_gaming:
  "nicheScan [''Gaming''] = (1, ''General'')
   \<and> map_sum id (\<lambda>c. (niche_category c, niche_multiplier c))
        (generateRateCard 50000 100000 ''Mid-Tier'' 4.5 72 [''Gaming''] None) = Inr (''General'', 1)"
proof -
  have n: "nicheScan [''Gaming''] = (1, ''General'')"
    by (simp add: nicheScan_def niche_table_gaming)
  have "map_sum id (\<lambda>c. (niche_category c, niche_multiplier c))
        (generateRateCard 50000 100000 ''Mid-Tier'' 4.5 72 [''Gaming''] None) = Inr (''General'', 1)"
    by (simp add: generateRateCard_def mid_tier_base_cpm mid_tier_floors nullish_opt_def Let_def
      n r2_def Math_round_def)
  with n show ?thesis by blast
qed

section \<open>Properties of the sponsorship scanner\<close>

lemma scan_disclosureCount:
  "st_disclosureCount (foldl (scanVideo E) st vs) =
     st_disclosureCount st
     + sum_list (map (\<lambda>v. length (disclosureSignals (toLowerCase (description v)))) vs)"
  by (induction vs arbitrary: st) (simp_all add: scanVideo_def Let_def)


lemma two_tags:
  "disclosureSignals (toLowerCase ''#ad Check out this awesome product! #sponsored'')
     = [(''disclosure'', ''#ad''), (''disclosure'', ''#sponsored'')]"
  by (simp add: disclosureSignals_def DISCLOSURE_HASHTAGS_def toLowerCase_def lower_char_def)

text \<open>
  Claim C3. The claim has the disclosure rate count the videos that carry a disclosure
  tag, so that it never exceeds 100. The counter of the source is incremented once for
  every matching tag (\<open>scan_disclosureCount\<close>): the description of the repository's test
  "should detect FTC disclosure hashtags" holds "#ad" and "#sponsored", so one detected
  video has a count of 2 and the rate is 200, whatever the regular expressions find.
\<close>

theorem detectSponsorships_two_tags:
  "totalDetected (detectSponsorships E [makeVideo ''#ad Check out this awesome product! #sponsored'']) = 1
   \<and> disclosureRate (detectSponsorships E [makeVideo ''#ad Check out this awesome product! #sponsored'']) = 200"
  by (simp add: detectSponsorships_def scanVideo_def Let_def makeVideo_def video_at_def two_tags Math_round_def)

section \<open>Properties of the authenticity detector\<close>

lemma snd_raise_flag: "snd (raise_flag sev sig n st) = snd st + n"
  by (simp add: raise_flag_def)

lemma likeConsistencyCheck_deduction:
  "snd (likeConsistencyCheck eligible st) = snd st + likeConsistencyDeduction eligible"
  by (simp add: likeConsistencyCheck_def likeConsistencyDeduction_def Let_def snd_raise_flag
      NATURAL_LVR_CV_MIN_def)

lemma commentToLikeCheck_deduction:
  "snd (commentToLikeCheck eligible st) = snd st + commentToLikeDeduction eligible"
proof -
  have l: "foldl (\<lambda>s v. s + likes v) 0 eligible = sum_list (map likes eligible)"
    using foldl_add_sum_list [of likes 0 eligible] by simp
  have c: "foldl (\<lambda>s v. s + comments v) 0 eligible = sum_list (map comments eligible)"
    using foldl_add_sum_list [of comments 0 eligible] by simp
  show ?thesis
    by (simp add: commentToLikeCheck_def commentToLikeDeduction_def Let_def snd_raise_flag l c
        NORMAL_CTL_MIN_def NORMAL_CTL_MAX_def)
qed

lemma viewsPerSubCheck_deduction:
  "snd (viewsPerSubCheck subs tv st) = snd st + viewsPerSubDeduction subs tv"
  by (simp add: viewsPerSubCheck_def viewsPerSubDeduction_def Let_def snd_raise_flag MIN_VIEWS_PER_SUB_def)

lemma zeroCommentCheck_deduction:
  "snd (zeroCommentCheck eligible st) = snd st + zeroCommentDeduction eligible"
proof -
  have f: "(\<lambda>v. comments v = 0 \<and> \<not> commentsDisabled v \<and> likes v > 50)
             = (\<lambda>v. \<not> commentsDisabled v \<and> comments v = 0 \<and> likes v > 50)"
    by auto
  show ?thesis
    by (simp add: zeroCommentCheck_def zeroCommentDeduction_def Let_def snd_raise_flag f)
qed

lemma viewFlatnessCheck_deduction:
  "snd (viewFlatnessCheck eligible st) = snd st + viewFlatnessDeduction eligible"
  by (auto simp add: viewFlatnessCheck_def viewFlatnessDeduction_def Let_def snd_raise_flag)

lemma deduction_bounds:
  "0 \<le> likeConsistencyDeduction e" "0 \<le> commentToLikeDeduction e" "0 \<le> viewsPerSubDeduction s t"
  "0 \<le> zeroCommentDeduction e" "0 \<le> viewFlatnessDeduction e"
  by (simp_all add: likeConsistencyDeduction_def commentToLikeDeduction_def viewsPerSubDeduction_def
      zeroCommentDeduction_def viewFlatnessDeduction_def Let_def)

lemma totalDeductions_nonneg: "0 \<le> totalDeductions e stats"
  unfolding totalDeductions_def
  using deduction_bounds(1) [of e] deduction_bounds(2) [of e]
    deduction_bounds(3) [of "safeInt (subscriberCount stats)" "safeInt (channelViewCount stats)"]
    deduction_bounds(4) [of e] deduction_bounds(5) [of e]
  by linarith

lemma analyzeAuthenticity_insufficient:
  assumes "length videos < 3 \<or> length (filter (\<lambda>v. views v \<ge> 100) videos) < 3"
  shows "auth_score (analyzeAuthenticity videos stats) = None"
    and "auth_status (analyzeAuthenticity videos stats) = Some ''insufficient_data''"
    and "videosAnalyzed (analyzeAuthenticity videos stats) = None"
  using assms by (auto simp add: analyzeAuthenticity_def insufficient_def Let_def)

lemma analyzeAuthenticity_computed:
  assumes "\<not> (length videos < 3 \<or> length (filter (\<lambda>v. views v \<ge> 100) videos) < 3)"
  shows "auth_score (analyzeAuthenticity videos stats)
           = Some (max 0 (100 - totalDeductions (filter (\<lambda>v. views v \<ge> 100) videos) stats))"
    and "auth_status (analyzeAuthenticity videos stats) = None"
    and "videosAnalyzed (analyzeAuthenticity videos stats)
           = Some (length (filter (\<lambda>v. views v \<ge> 100) videos))"
  using assms
  by (simp_all add: analyzeAuthenticity_def Let_def totalDeductions_def
      likeConsistencyCheck_deduction commentToLikeCheck_deduction viewsPerSubCheck_deduction
      zeroCommentCheck_deduction viewFlatnessCheck_deduction)

text \<open>
  Claim C7. \<open>analyzeAuthenticity\<close> returns the insufficient-data object, with a null
  score and the status "insufficient_data", exactly when there are fewer than 3 videos or
  fewer than 3 videos with at least 100 views; that object has no count of videos
  analyzed. Otherwise the score is max(0, 100 - deductions), where the deductions are the
  sum of what the five checks deduct, it lies in [0, 100], and \<open>videosAnalyzed\<close> is the
  number of videos with at least 100 views.
\<close>

theorem analyzeAuthenticity_variants:
  "((auth_score (analyzeAuthenticity videos stats) = None
      \<and> auth_status (analyzeAuthenticity videos stats) = Some ''insufficient_data'')
     = (length videos < 3 \<or> length (filter (\<lambda>v. views v \<ge> 100) videos) < 3))
   \<and> (if length videos < 3 \<or> length (filter (\<lambda>v. views v \<ge> 100) videos) < 3
       then videosAnalyzed (analyzeAuthenticity videos stats) = None
       else auth_score (analyzeAuthenticity videos stats)
              = Some (max 0 (100 - totalDeductions (filter (\<lambda>v. views v \<ge> 100) videos) stats))
            \<and> videosAnalyzed (analyzeAuthenticity videos stats)
              = Some (length (filter (\<lambda>v. views v \<ge> 100) videos))
            \<and> 0 \<le> max 0 (100 - totalDeductions (filter (\<lambda>v. views v \<ge> 100) videos) stats)
            \<and> max 0 (100 - totalDeductions (filter (\<lambda>v. views v \<ge> 100) videos) stats) \<le> 100)"
proof (cases "length videos < 3 \<or> length (filter (\<lambda>v. views v \<ge> 100) videos) < 3")
  case True
  then show ?thesis
    using analyzeAuthenticity_insufficient [OF True, of stats] by simp
next
  case False
  have "0 \<le> totalDeductions (filter (\<lambda>v. views v \<ge> 100) videos) stats"
    by (rule totalDeductions_nonneg)
  then show ?thesis
    using False analyzeAuthenticity_computed [OF False, of stats] by simp
qed


lemma tenVideos_eligible: "filter (\<lambda>v. views v \<ge> 100) tenVideos = tenVideos"
  by (simp add: tenVideos_def testVideo_def video_at_def)

lemma tenVideos_ratios:
  "likeToViewRatios tenVideos = [1/20, 1/20, 1/20, 1/20, 1/20, 1/20, 1/20, 1/20, 1/20, 1/20]"
  by (simp add: likeToViewRatios_def tenVideos_def testVideo_def video_at_def)

lemma tenVideos_views:
  "map views tenVideos = [10000, 10000, 10000, 10000, 10000, 10000, 10000, 10000, 10000, 10000]"
  by (simp add: tenVideos_def testVideo_def video_at_def)

lemma cv_constant_ratios:
  "coefficientOfVariation [1/20, 1/20, 1/20, 1/20, 1/20, 1/20, 1/20, 1/20, 1/20, 1/20] = 0"
  by (simp add: coefficientOfVariation_def)

lemma cv_constant_views:
  "coefficientOfVariation [10000, 10000, 10000, 10000, 10000, 10000, 10000, 10000, 10000, 10000] = 0"
  by (simp add: coefficientOfVariation_def)

lemma testChannelStats_values:
  "safeInt (subscriberCount testChannelStats) = 50000"
  "safeInt (channelViewCount testChannelStats) = 5000000"
  by (simp_all add: testChannelStats_def safeInt_defs)

lemma tenVideos_like: "likeConsistencyDeduction tenVideos = 30"
  by (simp add: likeConsistencyDeduction_def tenVideos_ratios cv_constant_ratios)

lemma tenVideos_ctl: "commentToLikeDeduction tenVideos = 0"
  by (simp add: commentToLikeDeduction_def tenVideos_def testVideo_def video_at_def)

lemma tenVideos_zero: "zeroCommentDeduction tenVideos = 0"
  by (simp add: zeroCommentDeduction_def tenVideos_def testVideo_def video_at_def)

lemma tenVideos_flat: "viewFlatnessDeduction tenVideos = 15"
  by (simp add: viewFlatnessDeduction_def tenVideos_views cv_constant_views) (simp add: tenVideos_def)

lemma tenVideos_deductions: "totalDeductions tenVideos testChannelStats = 45"
  by (simp add: totalDeductions_def tenVideos_like tenVideos_ctl tenVideos_zero tenVideos_flat
      testChannelStats_values viewsPerSubDeduction_def)

theorem analyzeAuthenticity_variants_witness:
  "auth_score (analyzeAuthenticity tenVideos testChannelStats) = Some 55
   \<and> videosAnalyzed (analyzeAuthenticity tenVideos testChannelStats) = Some 10
   \<and> auth_score (analyzeAuthenticity [testVideo, testVideo] testChannelStats) = None
   \<and> auth_status (analyzeAuthenticity [testVideo, testVideo] testChannelStats) = Some ''insufficient_data''"
proof -
  have len: "length tenVideos = 10" by (simp add: tenVideos_def)
  have a: "auth_score (analyzeAuthenticity tenVideos testChannelStats) = Some 55
     \<and> videosAnalyzed (analyzeAuthenticity tenVideos testChannelStats) = Some 10"
    using analyzeAuthenticity_variants [of tenVideos testChannelStats]
    by (simp add: tenVideos_eligible len tenVideos_deductions)
  have b: "auth_score (analyzeAuthenticity [testVideo, testVideo] testChannelStats) = None
     \<and> auth_status (analyzeAuthenticity [testVideo, testVideo] testChannelStats) = Some ''insufficient_data''"
    using analyzeAuthenticity_variants [of "[testVideo, testVideo]" testChannelStats]
    by simp
  from a b show ?thesis by blast
qed

end
